theory Spec2Isabelle
  imports Complex_Main "HOL-Library.AList"
begin

section \<open>Python values, errors and the random generator\<close>

text \<open>
  The simulator of \<^verbatim>\<open>monte_carlo_simulator/das_monte_carlo.py\<close> is embedded function by
  function. Python integers are \<open>int\<close>; Python and numpy floats are modelled as \<open>real\<close>
  (no rounding, no infinities, no NaN). An exception is a value of \<open>py_error\<close>, returned
  as \<open>Inl\<close>.
\<close>

datatype py_error =
  ValueError | ZeroDivisionError | TypeError | KeyError | IndexError | ComplexResult

text \<open>\<^verbatim>\<open>int(x)\<close> on a float truncates towards zero.\<close>

definition py_int :: "real \<Rightarrow> int" where
  "py_int x = (if 0 \<le> x then \<lfloor>x\<rfloor> else \<lceil>x\<rceil>)"

text \<open>\<^verbatim>\<open>range(n)\<close>: empty when \<open>n \<le> 0\<close>.\<close>

definition py_range :: "int \<Rightarrow> int list" where
  "py_range n = map int [0..<nat n]"

text \<open>
  \<^verbatim>\<open>a / b\<close>. The quotient by zero is no real number (a Python float raises
  ZeroDivisionError, a numpy float yields inf or nan with a warning); the model reports
  it as an error.
\<close>

definition py_truediv :: "real \<Rightarrow> real \<Rightarrow> py_error + real" where
  "py_truediv a b = (if b = 0 then Inl ZeroDivisionError else Inr (a / b))"

text \<open>
  \<^verbatim>\<open>b ** e\<close> on Python floats. Anything to the power \<open>0.0\<close> is \<open>1.0\<close>; a negative base
  with a fractional exponent gives a complex number, where the model stops with
  \<open>ComplexResult\<close>.
\<close>

definition py_float_pow :: "real \<Rightarrow> real \<Rightarrow> py_error + real" where
  "py_float_pow b e =
     (if e = 0 then Inr 1
      else if 0 < b then Inr (b powr e)
      else if b = 0 then (if 0 < e then Inr 0 else Inl ZeroDivisionError)
      else if e = of_int \<lfloor>e\<rfloor> then Inr (b powi \<lfloor>e\<rfloor>)
      else Inl ComplexResult)"

text \<open>\<^verbatim>\<open>list.pop(i)\<close> for an index in range, keeping the list only.\<close>

definition list_pop :: "nat \<Rightarrow> 'a list \<Rightarrow> 'a list" where
  "list_pop i xs = take i xs @ drop (Suc i) xs"

text \<open>
  The process-wide generator of \<^verbatim>\<open>numpy.random\<close> is not part of the repository. It is a
  parameter: a type \<open>'g\<close> of generator states with the three operations the simulator
  calls. Each draw returns the value drawn and the next state.
\<close>

record 'g numpy_random =
  rnd_seed :: "int \<Rightarrow> 'g"
  rnd_normal :: "real \<Rightarrow> real \<Rightarrow> 'g \<Rightarrow> real \<times> 'g"
  rnd_binomial :: "int \<Rightarrow> real \<Rightarrow> 'g \<Rightarrow> int \<times> 'g"

text \<open>A computation that reads and advances the generator, or raises.\<close>

type_synonym ('g, 'a) rand = "'g \<Rightarrow> py_error + ('a \<times> 'g)"

definition rreturn :: "'a \<Rightarrow> ('g, 'a) rand" where
  "rreturn x g = Inr (x, g)"

definition rraise :: "py_error \<Rightarrow> ('g, 'a) rand" where
  "rraise e g = Inl e"

definition rbind :: "('g, 'a) rand \<Rightarrow> ('a \<Rightarrow> ('g, 'b) rand) \<Rightarrow> ('g, 'b) rand" where
  "rbind m f g = (case m g of Inl e \<Rightarrow> Inl e | Inr (x, g') \<Rightarrow> f x g')"

definition rlift :: "py_error + 'a \<Rightarrow> ('g, 'a) rand" where
  "rlift r g = (case r of Inl e \<Rightarrow> Inl e | Inr x \<Rightarrow> Inr (x, g))"

text \<open>
  The argument checks of numpy: \<^verbatim>\<open>seed\<close> wants \<open>0 \<le> s < 2 ^ 32\<close>, \<^verbatim>\<open>normal\<close> a
  non-negative scale, \<^verbatim>\<open>binomial\<close> a non-negative count and a probability in \<open>[0, 1]\<close>;
  each raises ValueError otherwise.
\<close>

definition np_seed :: "'g numpy_random \<Rightarrow> int \<Rightarrow> ('g, unit) rand" where
  "np_seed rng s g = (if 0 \<le> s \<and> s < 2 ^ 32 then Inr ((), rnd_seed rng s) else Inl ValueError)"

definition np_normal :: "'g numpy_random \<Rightarrow> real \<Rightarrow> real \<Rightarrow> ('g, real) rand" where
  "np_normal rng loc scale g = (if scale < 0 then Inl ValueError else Inr (rnd_normal rng loc scale g))"

definition np_binomial :: "'g numpy_random \<Rightarrow> int \<Rightarrow> real \<Rightarrow> ('g, int) rand" where
  "np_binomial rng n p g =
     (if n < 0 \<or> p < 0 \<or> 1 < p then Inl ValueError else Inr (rnd_binomial rng n p g))"

text \<open>What numpy guarantees of a binomial draw: between 0 and the number of trials.\<close>

definition binomial_in_range :: "'g numpy_random \<Rightarrow> bool" where
  "binomial_in_range rng \<longleftrightarrow>
     (\<forall>n p g. 0 \<le> n \<longrightarrow> 0 \<le> fst (rnd_binomial rng n p g) \<and> fst (rnd_binomial rng n p g) \<le> n)"

section \<open>Data model\<close>

datatype ArchitectureOption = OPTION_A_GPU_EDGE | OPTION_B_REGIONAL_DC | OPTION_C_CLOUD_ONLY

datatype CustomerSegment =
  PORT_AUTHORITY | NAVAL_MILITARY | ENVIRONMENTAL | SHIPPING_COMPANY | INSURANCE

text \<open>\<^verbatim>\<open>for seg in CustomerSegment\<close> iterates in the order of declaration.\<close>

definition segments :: "CustomerSegment list" where
  "segments = [PORT_AUTHORITY, NAVAL_MILITARY, ENVIRONMENTAL, SHIPPING_COMPANY, INSURANCE]"

record SimulationInputs =
  architecture_option :: ArchitectureOption
  series_a_funding :: real
  compression_error_threshold :: real
  initial_cables :: int
  target_cables_month_6 :: int
  target_cables_month_12 :: int
  target_cables_month_18 :: int
  pricing_port :: real
  pricing_naval :: real
  pricing_environmental :: real
  pricing_shipping :: real
  pricing_insurance :: real
  initial_team_size :: int
  team_growth_rate :: real
  cloud_provider :: string
  cloud_credits_secured :: real
  simulation_months :: int

record StochasticParameters =
  detection_accuracy_mean :: real
  detection_accuracy_std :: real
  cac_port_mean :: real
  cac_port_std :: real
  cac_naval_mean :: real
  cac_naval_std :: real
  conversion_rate_port_mean :: real
  conversion_rate_port_std :: real
  conversion_rate_naval_mean :: real
  conversion_rate_naval_std :: real
  churn_rate_monthly_mean :: real
  churn_rate_monthly_std :: real
  cloud_cost_per_tb_mean :: real
  cloud_cost_per_tb_std :: real
  edge_capex_variation :: real
  salary_variation :: real
  cable_deployment_time_months_mean :: real
  cable_deployment_time_months_std :: real
  system_uptime_mean :: real
  system_uptime_std :: real
  competitive_pressure_annual :: real

text \<open>A dictionary keyed by segment, in insertion order.\<close>

type_synonym ledger = "(CustomerSegment \<times> int) list"

record SimulationOutputs =
  months :: "int list"
  cables_deployed :: "int list"
  customers_by_segment :: "ledger list"
  total_customers :: "int list"
  detection_accuracy :: "real list"
  detections_per_day :: "int list"
  system_uptime :: "real list"
  regional_datacenters :: "int list"
  team_size_total :: "int list"
  team_by_role :: "(string \<times> int) list list"
  revenue_monthly :: "real list"
  costs_monthly :: "real list"
  costs_breakdown :: "(string \<times> real) list list"
  gross_margin :: "real list"
  cash_remaining :: "real list"
  arr :: "real list"
  profitability_achieved :: bool
  profitability_month :: "int option"
  series_b_qualified :: bool
  ran_out_of_cash :: bool
  failure_month :: "int option"

text \<open>\<^verbatim>\<open>SimulationOutputs()\<close>: the defaults of the dataclass.\<close>

definition SimulationOutputs_init :: SimulationOutputs where
  "SimulationOutputs_init =
     \<lparr>months = [], cables_deployed = [], customers_by_segment = [], total_customers = [],
      detection_accuracy = [], detections_per_day = [], system_uptime = [],
      regional_datacenters = [], team_size_total = [], team_by_role = [],
      revenue_monthly = [], costs_monthly = [], costs_breakdown = [], gross_margin = [],
      cash_remaining = [], arr = [],
      profitability_achieved = False, profitability_month = None,
      series_b_qualified = False, ran_out_of_cash = False, failure_month = None\<rparr>"

text \<open>The defaults of the two configuration dataclasses.\<close>

definition default_inputs :: SimulationInputs where
  "default_inputs =
     \<lparr>architecture_option = OPTION_C_CLOUD_ONLY, series_a_funding = 10000000,
      compression_error_threshold = 1 / 10,
      initial_cables = 3, target_cables_month_6 = 5, target_cables_month_12 = 15,
      target_cables_month_18 = 30,
      pricing_port = 35000, pricing_naval = 500000, pricing_environmental = 10000,
      pricing_shipping = 10000, pricing_insurance = 25000,
      initial_team_size = 5, team_growth_rate = 3 / 2,
      cloud_provider = ''GCP'', cloud_credits_secured = 250000,
      simulation_months = 24\<rparr>"

definition default_params :: StochasticParameters where
  "default_params =
     \<lparr>detection_accuracy_mean = 97 / 100, detection_accuracy_std = 2 / 100,
      cac_port_mean = 50000, cac_port_std = 15000, cac_naval_mean = 200000,
      cac_naval_std = 50000,
      conversion_rate_port_mean = 25 / 100, conversion_rate_port_std = 10 / 100,
      conversion_rate_naval_mean = 15 / 100, conversion_rate_naval_std = 5 / 100,
      churn_rate_monthly_mean = 2 / 100, churn_rate_monthly_std = 1 / 100,
      cloud_cost_per_tb_mean = 50, cloud_cost_per_tb_std = 10,
      edge_capex_variation = 15 / 100, salary_variation = 20 / 100,
      cable_deployment_time_months_mean = 2, cable_deployment_time_months_std = 1 / 2,
      system_uptime_mean = 995 / 1000, system_uptime_std = 5 / 1000,
      competitive_pressure_annual = 10 / 100\<rparr>"

text \<open>
  \<^verbatim>\<open>DASMonteCarloSimulator.__init__\<close> stores the two configurations and checks nothing.
  The methods below take them as their first arguments.
\<close>

definition DASMonteCarloSimulator ::
  "SimulationInputs \<Rightarrow> StochasticParameters \<Rightarrow> py_error + (SimulationInputs \<times> StochasticParameters)" where
  "DASMonteCarloSimulator inp par = Inr (inp, par)"

section \<open>Cost model\<close>

definition get_architecture_costs ::
  "'g numpy_random \<Rightarrow> StochasticParameters \<Rightarrow> ArchitectureOption \<Rightarrow> int \<Rightarrow> ('g, real \<times> int) rand" where
  "get_architecture_costs rng par arch num_cables =
     (let (edge_capex_per_cable, edge_opex_monthly, datacenter_capex,
           datacenter_opex_monthly, cloud_opex_monthly) =
        (case arch of
           OPTION_A_GPU_EDGE \<Rightarrow> (500000 :: real, 10800 :: int, 0 :: int, 0 :: int, 4000 * num_cables)
         | OPTION_B_REGIONAL_DC \<Rightarrow>
             (350000, 2500, (if num_cables \<ge> 8 then 2000000 else 0),
              (if num_cables \<ge> 8 then 16700 else 0), 4000 * num_cables)
         | OPTION_C_CLOUD_ONLY \<Rightarrow> (250000, 2500, 0, 0, 15000 * num_cables))
      in rbind (np_normal rng 1 (edge_capex_variation par)) (\<lambda>variation.
           rreturn (edge_capex_per_cable * variation,
                    edge_opex_monthly * num_cables + datacenter_opex_monthly + cloud_opex_monthly)))"

definition team_roles :: "int \<Rightarrow> (string \<times> int) list" where
  "team_roles team_size =
     [(''signal_processing_ml'', py_int (of_int team_size * (25 / 100))),
      (''data_engineering'', py_int (of_int team_size * (20 / 100))),
      (''cloud_devops'', py_int (of_int team_size * (20 / 100))),
      (''edge_hardware'', py_int (of_int team_size * (15 / 100))),
      (''product_engineering'', py_int (of_int team_size * (20 / 100)))]"

definition role_salaries :: "(string \<times> int) list" where
  "role_salaries =
     [(''signal_processing_ml'', 200000), (''data_engineering'', 170000),
      (''cloud_devops'', 160000), (''edge_hardware'', 150000),
      (''product_engineering'', 165000)]"

fun team_cost_loop ::
  "'g numpy_random \<Rightarrow> StochasticParameters \<Rightarrow> (string \<times> int) list \<Rightarrow> real \<Rightarrow> ('g, real) rand" where
  "team_cost_loop rng par [] monthly_cost = rreturn monthly_cost"
| "team_cost_loop rng par ((role, count) # rest) monthly_cost =
     (case map_of role_salaries role of
        None \<Rightarrow> rraise KeyError
      | Some s \<Rightarrow>
          rbind (np_normal rng 1 (salary_variation par)) (\<lambda>variation.
            team_cost_loop rng par rest
              (monthly_cost + (of_int s * variation / 12) * of_int count)))"

definition get_team_costs ::
  "'g numpy_random \<Rightarrow> StochasticParameters \<Rightarrow> int \<Rightarrow> ('g, real \<times> (string \<times> int) list) rand" where
  "get_team_costs rng par team_size =
     (let roles = team_roles team_size
      in rbind (team_cost_loop rng par roles 0) (\<lambda>monthly_cost. rreturn (monthly_cost, roles)))"

section \<open>Demand model\<close>

fun leads_per_cable :: "CustomerSegment \<Rightarrow> int" where
  "leads_per_cable PORT_AUTHORITY = 4"
| "leads_per_cable NAVAL_MILITARY = 1"
| "leads_per_cable ENVIRONMENTAL = 3"
| "leads_per_cable SHIPPING_COMPANY = 2"
| "leads_per_cable INSURANCE = 2"

definition conversion_rates ::
  "'g numpy_random \<Rightarrow> StochasticParameters \<Rightarrow> ('g, (CustomerSegment \<times> real) list) rand" where
  "conversion_rates rng par =
     rbind (np_normal rng (conversion_rate_port_mean par) (conversion_rate_port_std par)) (\<lambda>c_port.
     rbind (np_normal rng (conversion_rate_naval_mean par) (conversion_rate_naval_std par)) (\<lambda>c_naval.
     rbind (np_normal rng (30 / 100) (10 / 100)) (\<lambda>c_env.
     rbind (np_normal rng (20 / 100) (8 / 100)) (\<lambda>c_ship.
     rbind (np_normal rng (15 / 100) (8 / 100)) (\<lambda>c_ins.
       rreturn [(PORT_AUTHORITY, max 0 c_port), (NAVAL_MILITARY, max 0 c_naval),
                (ENVIRONMENTAL, max 0 c_env), (SHIPPING_COMPANY, max 0 c_ship),
                (INSURANCE, max 0 c_ins)])))))"

text \<open>The sales ramp: \<^verbatim>\<open>min(1.0, month / 12)\<close>.\<close>

definition sales_effectiveness :: "int \<Rightarrow> real" where
  "sales_effectiveness month = min 1 (of_int month / 12)"

fun acquisition_loop ::
  "'g numpy_random \<Rightarrow> int \<Rightarrow> int \<Rightarrow> (CustomerSegment \<times> real) list \<Rightarrow> CustomerSegment list \<Rightarrow>
   ledger \<Rightarrow> ('g, ledger) rand" where
  "acquisition_loop rng month cables rates [] new_customers = rreturn new_customers"
| "acquisition_loop rng month cables rates (segment # rest) new_customers =
     (let total_leads = of_int (leads_per_cable segment) * of_int cables * sales_effectiveness month
      in case map_of rates segment of
           None \<Rightarrow> rraise KeyError
         | Some conversion \<Rightarrow>
             rbind (np_binomial rng (py_int total_leads) conversion) (\<lambda>acquired.
               acquisition_loop rng month cables rates rest
                 (AList.update segment acquired new_customers)))"

definition get_customer_acquisition ::
  "'g numpy_random \<Rightarrow> StochasticParameters \<Rightarrow> int \<Rightarrow> int \<Rightarrow> ledger \<Rightarrow> ('g, ledger) rand" where
  "get_customer_acquisition rng par month cables current_customers =
     (let new_customers = map (\<lambda>seg. (seg, 0)) segments
      in rbind (conversion_rates rng par) (\<lambda>rates.
           acquisition_loop rng month cables rates segments new_customers))"

text \<open>The churn rate of the month: \<^verbatim>\<open>max(0, min(0.1, draw))\<close>.\<close>

definition churn_rate_of :: "real \<Rightarrow> real" where
  "churn_rate_of draw = max 0 (min (1 / 10) draw)"

fun churn_loop :: "'g numpy_random \<Rightarrow> real \<Rightarrow> ledger \<Rightarrow> ledger \<Rightarrow> ('g, ledger) rand" where
  "churn_loop rng churn_rate [] churned_customers = rreturn churned_customers"
| "churn_loop rng churn_rate ((segment, count) # rest) churned_customers =
     rbind (np_binomial rng count churn_rate) (\<lambda>churned.
       churn_loop rng churn_rate rest
         (AList.update segment (max 0 (count - churned)) churned_customers))"

definition apply_churn ::
  "'g numpy_random \<Rightarrow> StochasticParameters \<Rightarrow> ledger \<Rightarrow> ('g, ledger) rand" where
  "apply_churn rng par customers =
     rbind (np_normal rng (churn_rate_monthly_mean par) (churn_rate_monthly_std par)) (\<lambda>draw.
       churn_loop rng (churn_rate_of draw) customers [])"

definition pricing :: "SimulationInputs \<Rightarrow> (CustomerSegment \<times> real) list" where
  "pricing inp =
     [(PORT_AUTHORITY, pricing_port inp), (NAVAL_MILITARY, pricing_naval inp),
      (ENVIRONMENTAL, pricing_environmental inp), (SHIPPING_COMPANY, pricing_shipping inp),
      (INSURANCE, pricing_insurance inp)]"

fun revenue_loop ::
  "(CustomerSegment \<times> real) list \<Rightarrow> real \<Rightarrow> ledger \<Rightarrow> real \<Rightarrow> py_error + real" where
  "revenue_loop prices price_erosion [] revenue = Inr revenue"
| "revenue_loop prices price_erosion ((segment, count) # rest) revenue =
     (case map_of prices segment of
        None \<Rightarrow> Inl KeyError
      | Some price \<Rightarrow>
          revenue_loop prices price_erosion rest (revenue + price * of_int count * price_erosion))"

definition calculate_revenue ::
  "SimulationInputs \<Rightarrow> StochasticParameters \<Rightarrow> ledger \<Rightarrow> int \<Rightarrow> py_error + real" where
  "calculate_revenue inp par customers month =
     (case py_float_pow (1 - competitive_pressure_annual par) (of_int month / 12) of
        Inl e \<Rightarrow> Inl e
      | Inr price_erosion \<Rightarrow> revenue_loop (pricing inp) price_erosion customers 0)"

definition calculate_detections :: "'g numpy_random \<Rightarrow> int \<Rightarrow> real \<Rightarrow> ('g, int) rand" where
  "calculate_detections rng cables accuracy =
     (let base_detections = cables * 50;
          detections = py_int (of_int base_detections * accuracy)
      in rbind (np_normal rng (of_int detections) (of_int detections * (1 / 10))) (\<lambda>draw.
           rreturn (max 0 (py_int draw))))"

section \<open>Trial engine\<close>

text \<open>
  The local variables of \<^verbatim>\<open>run_single_simulation\<close> that live across months, with the
  outputs being built.
\<close>

record trial_state =
  st_cash :: real
  st_cables_deployed :: int
  st_customers :: ledger
  st_team_size :: int
  st_regional_datacenters :: int
  st_deployment_queue :: "(int \<times> real) list"
  st_outputs :: SimulationOutputs

text \<open>
  Processing the deployment queue: the indices of the entries that are due, one cable
  deployed for each, the entries popped from the highest index down.
\<close>

definition process_deployment_queue :: "int \<Rightarrow> trial_state \<Rightarrow> trial_state" where
  "process_deployment_queue month st =
     (let queue = st_deployment_queue st;
          deployed_this_month = filter (\<lambda>i. month \<ge> fst (queue ! i)) [0..<length queue]
      in st\<lparr>st_cables_deployed := st_cables_deployed st + int (length deployed_this_month),
             st_deployment_queue := fold list_pop (rev deployed_this_month) queue\<rparr>)"

definition target_cables_at :: "SimulationInputs \<Rightarrow> int \<Rightarrow> int" where
  "target_cables_at inp month =
     (let target_cables = initial_cables inp;
          target_cables = (if month \<ge> 6 then target_cables_month_6 inp else target_cables);
          target_cables = (if month \<ge> 12 then target_cables_month_12 inp else target_cables);
          target_cables = (if month \<ge> 18 then target_cables_month_18 inp else target_cables)
      in target_cables)"

text \<open>\<^verbatim>\<open>for _ in range(cables_to_deploy)\<close>: one lead-time draw and one capex draw per cable.\<close>

fun deploy_loop ::
  "'g numpy_random \<Rightarrow> SimulationInputs \<Rightarrow> StochasticParameters \<Rightarrow> int \<Rightarrow> nat \<Rightarrow> trial_state \<Rightarrow>
   ('g, trial_state) rand" where
  "deploy_loop rng inp par month 0 st = rreturn st"
| "deploy_loop rng inp par month (Suc k) st =
     rbind (np_normal rng (cable_deployment_time_months_mean par)
                          (cable_deployment_time_months_std par)) (\<lambda>deployment_time.
       let deploy_month = month + py_int deployment_time
       in rbind (get_architecture_costs rng par (architecture_option inp) 1)
            (\<lambda>(edge_capex_per_cable, opex).
               deploy_loop rng inp par month k
                 (st\<lparr>st_deployment_queue :=
                        st_deployment_queue st @ [(deploy_month, edge_capex_per_cable)],
                      st_cash := st_cash st - edge_capex_per_cable\<rparr>)))"

definition plan_deployments ::
  "'g numpy_random \<Rightarrow> SimulationInputs \<Rightarrow> StochasticParameters \<Rightarrow> int \<Rightarrow> trial_state \<Rightarrow>
   ('g, trial_state) rand" where
  "plan_deployments rng inp par month st =
     (let cables_to_deploy =
            target_cables_at inp month - st_cables_deployed st - int (length (st_deployment_queue st))
      in if cables_to_deploy > 0 then deploy_loop rng inp par month (nat cables_to_deploy) st
         else rreturn st)"

definition regional_datacenter_decision :: "SimulationInputs \<Rightarrow> trial_state \<Rightarrow> trial_state" where
  "regional_datacenter_decision inp st =
     (if architecture_option inp = OPTION_B_REGIONAL_DC \<and> st_cables_deployed st \<ge> 8
         \<and> st_regional_datacenters st = 0
      then st\<lparr>st_regional_datacenters := 1, st_cash := st_cash st - 2000000\<rparr>
      else st)"

text \<open>The first part of a month: the month is recorded, then the deployment steps.\<close>

definition deployment_phase ::
  "'g numpy_random \<Rightarrow> SimulationInputs \<Rightarrow> StochasticParameters \<Rightarrow> int \<Rightarrow> trial_state \<Rightarrow>
   ('g, trial_state) rand" where
  "deployment_phase rng inp par month st =
     (let st = st\<lparr>st_outputs := (st_outputs st)\<lparr>months := months (st_outputs st) @ [month]\<rparr>\<rparr>;
          st = process_deployment_queue month st
      in rbind (plan_deployments rng inp par month st) (\<lambda>st.
           rreturn (regional_datacenter_decision inp st)))"

text \<open>\<^verbatim>\<open>customers[segment] = customers.get(segment, 0) + count\<close> for each new entry.\<close>

definition add_new_customers :: "ledger \<Rightarrow> ledger \<Rightarrow> ledger" where
  "add_new_customers new_customers customers =
     fold (\<lambda>(segment, count) cs.
            AList.update segment ((case map_of cs segment of None \<Rightarrow> 0 | Some c \<Rightarrow> c) + count) cs)
          new_customers customers"

text \<open>
  The values a month computes from the state after the deployment steps: customers,
  revenue, costs and technical metrics, drawn in the order of the source.
\<close>

record month_figures =
  m_customers :: ledger
  m_revenue :: real
  m_total_costs :: real
  m_costs_breakdown :: "(string \<times> real) list"
  m_team_breakdown :: "(string \<times> int) list"
  m_detection_accuracy :: real
  m_system_uptime :: real
  m_detections :: int

definition business_phase ::
  "'g numpy_random \<Rightarrow> SimulationInputs \<Rightarrow> StochasticParameters \<Rightarrow> int \<Rightarrow> trial_state \<Rightarrow>
   ('g, month_figures) rand" where
  "business_phase rng inp par month st =
     rbind (get_customer_acquisition rng par month (st_cables_deployed st) (st_customers st))
       (\<lambda>new_customers.
     rbind (apply_churn rng par (add_new_customers new_customers (st_customers st))) (\<lambda>customers.
     rbind (rlift (calculate_revenue inp par customers month)) (\<lambda>revenue.
     rbind (get_architecture_costs rng par (architecture_option inp) (st_cables_deployed st))
       (\<lambda>(capex, infra_opex).
     rbind (get_team_costs rng par (st_team_size st)) (\<lambda>(team_cost, team_breakdown).
       let sales_marketing_cost = 50000 + 5000 * st_team_size st;
           support_cost = of_int (10000 * st_cables_deployed st) * (5 / 100);
           total_costs = of_int infra_opex + team_cost + of_int sales_marketing_cost + support_cost
       in
     rbind (np_normal rng (detection_accuracy_mean par) (detection_accuracy_std par)) (\<lambda>draw_acc.
       let accuracy = max (8 / 10) (min 1 draw_acc) in
     rbind (np_normal rng (system_uptime_mean par) (system_uptime_std par)) (\<lambda>draw_up.
       let uptime = max (9 / 10) (min 1 draw_up) in
     rbind (calculate_detections rng (st_cables_deployed st) accuracy) (\<lambda>detections.
       rreturn
         \<lparr>m_customers = customers, m_revenue = revenue, m_total_costs = total_costs,
          m_costs_breakdown =
            [(''infrastructure'', of_int infra_opex), (''personnel'', team_cost),
             (''sales_marketing'', of_int sales_marketing_cost), (''support'', support_cost)],
          m_team_breakdown = team_breakdown,
          m_detection_accuracy = accuracy, m_system_uptime = uptime,
          m_detections = detections\<rparr>))))))))"

text \<open>
  The rest of the month: cash update, team growth, the snapshot appended to the outputs,
  and the three checks, each a definition of its own.
\<close>

definition record_outputs :: "trial_state \<Rightarrow> int \<Rightarrow> month_figures \<Rightarrow> SimulationOutputs" where
  "record_outputs st team fig =
     (let out = st_outputs st
      in out\<lparr>cables_deployed := cables_deployed out @ [st_cables_deployed st],
              customers_by_segment := customers_by_segment out @ [m_customers fig],
              total_customers := total_customers out @ [sum_list (map snd (m_customers fig))],
              detection_accuracy := detection_accuracy out @ [m_detection_accuracy fig],
              detections_per_day := detections_per_day out @ [m_detections fig],
              system_uptime := system_uptime out @ [m_system_uptime fig],
              regional_datacenters := regional_datacenters out @ [st_regional_datacenters st],
              team_size_total := team_size_total out @ [team],
              team_by_role := team_by_role out @ [m_team_breakdown fig],
              revenue_monthly := revenue_monthly out @ [m_revenue fig],
              costs_monthly := costs_monthly out @ [m_total_costs fig],
              costs_breakdown := costs_breakdown out @ [m_costs_breakdown fig]\<rparr>)"

text \<open>
  \<^verbatim>\<open>(revenue - total_costs) / revenue if revenue > 0 else -1\<close>: the quotient is taken
  in the first branch only.
\<close>

definition gross_margin_of :: "real \<Rightarrow> real \<Rightarrow> py_error + real" where
  "gross_margin_of revenue total_costs =
     (if revenue > 0 then py_truediv (revenue - total_costs) revenue else Inr (- 1))"

definition record_financials :: "real \<Rightarrow> real \<Rightarrow> real \<Rightarrow> SimulationOutputs \<Rightarrow> SimulationOutputs" where
  "record_financials margin cash revenue out =
     out\<lparr>gross_margin := gross_margin out @ [margin],
          cash_remaining := cash_remaining out @ [cash],
          arr := arr out @ [revenue * 12]\<rparr>"

definition check_profitability ::
  "int \<Rightarrow> real \<Rightarrow> real \<Rightarrow> real \<Rightarrow> SimulationOutputs \<Rightarrow> SimulationOutputs" where
  "check_profitability month margin revenue total_costs out =
     (if \<not> profitability_achieved out \<and> margin > 7 / 10 \<and> revenue > total_costs
      then out\<lparr>profitability_achieved := True, profitability_month := Some month\<rparr>
      else out)"

definition check_series_b :: "real \<Rightarrow> real \<Rightarrow> int \<Rightarrow> SimulationOutputs \<Rightarrow> SimulationOutputs" where
  "check_series_b revenue margin cables out =
     (if revenue * 12 > 30000000 \<and> margin > 6 / 10 \<and> cables \<ge> 15
      then out\<lparr>series_b_qualified := True\<rparr>
      else out)"

text \<open>The check for failure; the boolean is the \<^verbatim>\<open>break\<close>.\<close>

definition check_failure :: "real \<Rightarrow> int \<Rightarrow> SimulationOutputs \<Rightarrow> bool \<times> SimulationOutputs" where
  "check_failure cash month out =
     (if cash < 0 then (True, out\<lparr>ran_out_of_cash := True, failure_month := Some month\<rparr>)
      else (False, out))"

definition record_phase ::
  "SimulationInputs \<Rightarrow> int \<Rightarrow> month_figures \<Rightarrow> trial_state \<Rightarrow> py_error + (bool \<times> trial_state)" where
  "record_phase inp month fig st =
     (let revenue = m_revenue fig;
          total_costs = m_total_costs fig;
          cash = st_cash st + (revenue - total_costs);
          team = (if month > 0 \<and> month mod 6 = 0
                  then py_int (of_int (st_team_size st) * team_growth_rate inp)
                  else st_team_size st);
          out = record_outputs st team fig
      in case gross_margin_of revenue total_costs of
           Inl e \<Rightarrow> Inl e
         | Inr margin \<Rightarrow>
             (let out = record_financials margin cash revenue out;
                  out = check_profitability month margin revenue total_costs out;
                  out = check_series_b revenue margin (st_cables_deployed st) out;
                  (stop, out) = check_failure cash month out
              in Inr (stop, st\<lparr>st_cash := cash, st_customers := m_customers fig,
                                 st_team_size := team, st_outputs := out\<rparr>)))"

text \<open>One pass of the body of \<^verbatim>\<open>for month in range(simulation_months)\<close>.\<close>

definition simulate_month ::
  "'g numpy_random \<Rightarrow> SimulationInputs \<Rightarrow> StochasticParameters \<Rightarrow> int \<Rightarrow> trial_state \<Rightarrow>
   ('g, bool \<times> trial_state) rand" where
  "simulate_month rng inp par month st =
     rbind (deployment_phase rng inp par month st) (\<lambda>st.
     rbind (business_phase rng inp par month st) (\<lambda>fig.
       rlift (record_phase inp month fig st)))"

fun run_months ::
  "'g numpy_random \<Rightarrow> SimulationInputs \<Rightarrow> StochasticParameters \<Rightarrow> int list \<Rightarrow> trial_state \<Rightarrow>
   ('g, trial_state) rand" where
  "run_months rng inp par [] st = rreturn st"
| "run_months rng inp par (month # rest) st =
     rbind (simulate_month rng inp par month st) (\<lambda>(stop, st).
       if stop then rreturn st else run_months rng inp par rest st)"

definition initial_state :: "SimulationInputs \<Rightarrow> real \<Rightarrow> trial_state" where
  "initial_state inp edge_capex =
     \<lparr>st_cash = series_a_funding inp - cloud_credits_secured inp
                - edge_capex * of_int (initial_cables inp),
      st_cables_deployed = initial_cables inp,
      st_customers = map (\<lambda>seg. (seg, 0)) segments,
      st_team_size = initial_team_size inp,
      st_regional_datacenters = 0,
      st_deployment_queue = [],
      st_outputs = SimulationOutputs_init\<rparr>"

definition run_single_simulation ::
  "'g numpy_random \<Rightarrow> SimulationInputs \<Rightarrow> StochasticParameters \<Rightarrow> int option \<Rightarrow>
   ('g, SimulationOutputs) rand" where
  "run_single_simulation rng inp par seed =
     rbind (case seed of None \<Rightarrow> rreturn () | Some s \<Rightarrow> np_seed rng s) (\<lambda>u.
     rbind (get_architecture_costs rng par (architecture_option inp) 1) (\<lambda>(edge_capex, opex).
     rbind (run_months rng inp par (py_range (simulation_months inp))
              (initial_state inp edge_capex)) (\<lambda>st.
       rreturn (st_outputs st))))"

section \<open>Monte Carlo driver\<close>

fun trial_loop ::
  "'g numpy_random \<Rightarrow> SimulationInputs \<Rightarrow> StochasticParameters \<Rightarrow> int list \<Rightarrow>
   SimulationOutputs list \<Rightarrow> ('g, SimulationOutputs list) rand" where
  "trial_loop rng inp par [] results = rreturn results"
| "trial_loop rng inp par (i # rest) results =
     rbind (run_single_simulation rng inp par (Some i)) (\<lambda>outputs.
       trial_loop rng inp par rest (results @ [outputs]))"

definition run_monte_carlo ::
  "'g numpy_random \<Rightarrow> SimulationInputs \<Rightarrow> StochasticParameters \<Rightarrow> int \<Rightarrow>
   ('g, SimulationOutputs list) rand" where
  "run_monte_carlo rng inp par num_simulations =
     trial_loop rng inp par (py_range num_simulations) []"

section \<open>Aggregator\<close>

text \<open>
  The reductions \<^verbatim>\<open>np.mean\<close>, \<^verbatim>\<open>np.median\<close> and \<^verbatim>\<open>np.percentile\<close> are not part of the
  repository: they are a parameter. What the embedding takes from numpy is their
  behaviour on an empty list, where the mean and the median are nan (with a warning) and
  the percentile raises IndexError.
\<close>

record numpy_stats =
  np_mean :: "real list \<Rightarrow> real"
  np_median :: "real list \<Rightarrow> real"
  np_percentile :: "real list \<Rightarrow> real \<Rightarrow> real"

text \<open>The dictionary of one final metric: mean, median, 10th and 90th percentile.\<close>

record metric_summary =
  mean :: real
  median :: real
  p10 :: real
  p90 :: real

definition summarize :: "numpy_stats \<Rightarrow> real list \<Rightarrow> py_error + metric_summary" where
  "summarize np xs =
     (if xs = [] then Inl IndexError
      else Inr \<lparr>mean = np_mean np xs, median = np_median np xs,
                 p10 = np_percentile np xs 10, p90 = np_percentile np xs 90\<rparr>)"

record analysis =
  num_simulations :: nat
  profitability_rate :: real
  series_b_qualified_rate :: real
  failure_rate :: real
  avg_months_to_profitability :: "real option"
  final_cables_deployed :: metric_summary
  final_total_customers :: metric_summary
  final_arr :: metric_summary
  final_cash_remaining :: metric_summary
  final_team_size :: metric_summary

text \<open>\<^verbatim>\<open>sum(r.profitability_month for r in sims)\<close>: adding \<^verbatim>\<open>None\<close> raises TypeError.\<close>

fun sum_profitability_month :: "SimulationOutputs list \<Rightarrow> py_error + int" where
  "sum_profitability_month [] = Inr 0"
| "sum_profitability_month (r # rs) =
     (case profitability_month r of
        None \<Rightarrow> Inl TypeError
      | Some m \<Rightarrow> (case sum_profitability_month rs of Inl e \<Rightarrow> Inl e | Inr s \<Rightarrow> Inr (m + s)))"

definition avg_months_to_profit :: "SimulationOutputs list \<Rightarrow> py_error + real option" where
  "avg_months_to_profit results =
     (let profitable_sims = filter profitability_achieved results
      in if profitable_sims \<noteq> []
         then (case sum_profitability_month profitable_sims of
                 Inl e \<Rightarrow> Inl e
               | Inr s \<Rightarrow> Inr (Some (of_int s / of_nat (length profitable_sims))))
         else Inr None)"

definition count_rate :: "(SimulationOutputs \<Rightarrow> bool) \<Rightarrow> SimulationOutputs list \<Rightarrow> py_error + real" where
  "count_rate flag results =
     (if length results = 0 then Inl ZeroDivisionError
      else Inr (of_nat (length (filter flag results)) / of_nat (length results)))"

definition finals :: "(SimulationOutputs \<Rightarrow> 'a list) \<Rightarrow> SimulationOutputs list \<Rightarrow> 'a list" where
  "finals series results = map (\<lambda>r. last (series r)) (filter (\<lambda>r. length (series r) > 0) results)"

definition analyze_results :: "numpy_stats \<Rightarrow> SimulationOutputs list \<Rightarrow> py_error + analysis" where
  "analyze_results np results =
     (case count_rate profitability_achieved results of Inl e \<Rightarrow> Inl e | Inr p_rate \<Rightarrow>
     (case count_rate series_b_qualified results of Inl e \<Rightarrow> Inl e | Inr b_rate \<Rightarrow>
     (case count_rate ran_out_of_cash results of Inl e \<Rightarrow> Inl e | Inr f_rate \<Rightarrow>
     (case avg_months_to_profit results of Inl e \<Rightarrow> Inl e | Inr avg \<Rightarrow>
     (let final_cables = map of_int (finals cables_deployed results);
          final_customers = map of_int (finals total_customers results);
          final_arr_values = finals arr results;
          final_cash = finals cash_remaining results;
          final_team = map of_int (finals team_size_total results)
      in
     (case summarize np final_cables of Inl e \<Rightarrow> Inl e | Inr s_cables \<Rightarrow>
     (case summarize np final_customers of Inl e \<Rightarrow> Inl e | Inr s_customers \<Rightarrow>
     (case summarize np final_arr_values of Inl e \<Rightarrow> Inl e | Inr s_arr \<Rightarrow>
     (case summarize np final_cash of Inl e \<Rightarrow> Inl e | Inr s_cash \<Rightarrow>
     (case summarize np final_team of Inl e \<Rightarrow> Inl e | Inr s_team \<Rightarrow>
        Inr \<lparr>num_simulations = length results,
             profitability_rate = p_rate, series_b_qualified_rate = b_rate,
             failure_rate = f_rate, avg_months_to_profitability = avg,
             final_cables_deployed = s_cables, final_total_customers = s_customers,
             final_arr = s_arr, final_cash_remaining = s_cash,
             final_team_size = s_team\<rparr>))))))))))"

text \<open>
  An instance of the reductions in exact arithmetic: the arithmetic mean, and numpy's
  default percentile, which interpolates linearly between the two nearest ranks of the
  sorted list; the median is the 50th percentile.
\<close>

definition exact_percentile :: "real list \<Rightarrow> real \<Rightarrow> real" where
  "exact_percentile xs q =
     (let sorted_xs = sort xs;
          position = q / 100 * of_nat (length sorted_xs - 1);
          lower = nat \<lfloor>position\<rfloor>;
          upper = min (Suc lower) (length sorted_xs - 1)
      in sorted_xs ! lower
         + (position - of_nat lower) * (sorted_xs ! upper - sorted_xs ! lower))"

definition exact_stats :: numpy_stats where
  "exact_stats =
     \<lparr>np_mean = (\<lambda>xs. sum_list xs / of_nat (length xs)),
      np_median = (\<lambda>xs. exact_percentile xs 50),
      np_percentile = exact_percentile\<rparr>"

section \<open>A generator that replays given draws\<close>

text \<open>
  A concrete generator, to run the model on examples: its state holds the standard
  normal variates and the binomial outcomes still to come; a normal draw is
  \<open>loc + scale * z\<close>, a binomial draw is the next outcome brought into \<open>0..n\<close>. A tape
  that has run out yields \<open>z = 0\<close> and no success. Seeding with \<open>i\<close> loads the tapes of \<open>i\<close>.
\<close>

record tapes =
  gauss_tape :: "real list"
  binomial_tape :: "int list"

definition replay :: "(int \<Rightarrow> tapes) \<Rightarrow> tapes numpy_random" where
  "replay seeded =
     \<lparr>rnd_seed = seeded,
      rnd_normal = (\<lambda>loc scale g.
         (loc + scale * (case gauss_tape g of [] \<Rightarrow> 0 | z # zs \<Rightarrow> z),
          g\<lparr>gauss_tape := tl (gauss_tape g)\<rparr>)),
      rnd_binomial = (\<lambda>n p g.
         (case binomial_tape g of [] \<Rightarrow> 0 | k # ks \<Rightarrow> max 0 (min n k),
          g\<lparr>binomial_tape := tl (binomial_tape g)\<rparr>))\<rparr>"

definition no_draws :: tapes where
  "no_draws = \<lparr>gauss_tape = [], binomial_tape = []\<rparr>"

definition silent :: "int \<Rightarrow> tapes" where
  "silent i = no_draws"

section \<open>A generator that records its binomial calls\<close>

text \<open>
  Any generator, made to keep beside its state the list of the binomial calls made so
  far, each with its number of trials and its probability. The values drawn and the
  states reached are those of the generator underneath.
\<close>

definition logging :: "'g numpy_random \<Rightarrow> ('g \<times> (int \<times> real) list) numpy_random" where
  "logging rng =
     \<lparr>rnd_seed = (\<lambda>s. (rnd_seed rng s, [])),
      rnd_normal = (\<lambda>loc scale (h, calls).
         (fst (rnd_normal rng loc scale h), (snd (rnd_normal rng loc scale h), calls))),
      rnd_binomial = (\<lambda>n p (h, calls).
         (fst (rnd_binomial rng n p h), (snd (rnd_binomial rng n p h), calls @ [(n, p)])))\<rparr>"

section \<open>Notions used in the statements\<close>

text \<open>All sixteen per-month sequences of the outputs hold \<open>n\<close> entries.\<close>

definition recorded_months :: "SimulationOutputs \<Rightarrow> nat \<Rightarrow> bool" where
  "recorded_months out n \<longleftrightarrow>
     length (months out) = n \<and> length (cables_deployed out) = n
     \<and> length (customers_by_segment out) = n \<and> length (total_customers out) = n
     \<and> length (detection_accuracy out) = n \<and> length (detections_per_day out) = n
     \<and> length (system_uptime out) = n \<and> length (regional_datacenters out) = n
     \<and> length (team_size_total out) = n \<and> length (team_by_role out) = n
     \<and> length (revenue_monthly out) = n \<and> length (costs_monthly out) = n
     \<and> length (costs_breakdown out) = n \<and> length (gross_margin out) = n
     \<and> length (cash_remaining out) = n \<and> length (arr out) = n"

text \<open>The state before month \<open>j\<close> of a trial that has not stopped.\<close>

definition running :: "nat \<Rightarrow> trial_state \<Rightarrow> bool" where
  "running j s \<longleftrightarrow> recorded_months (st_outputs s) j \<and> months (st_outputs s) = map int [0..<j]
     \<and> \<not> ran_out_of_cash (st_outputs s)"

text \<open>The value of the gross margin, and the team size after the growth step of a month.\<close>

definition margin_of :: "real \<Rightarrow> real \<Rightarrow> real" where
  "margin_of revenue total_costs = (if revenue > 0 then (revenue - total_costs) / revenue else - 1)"

definition team_after :: "SimulationInputs \<Rightarrow> int \<Rightarrow> int \<Rightarrow> int" where
  "team_after inp month team =
     (if month > 0 \<and> month mod 6 = 0 then py_int (of_int team * team_growth_rate inp) else team)"

text \<open>The outputs after the recording steps of a month, as one expression.\<close>

definition month_outputs ::
  "SimulationInputs \<Rightarrow> int \<Rightarrow> month_figures \<Rightarrow> trial_state \<Rightarrow> SimulationOutputs" where
  "month_outputs inp month fig st =
     (let revenue = m_revenue fig; total_costs = m_total_costs fig;
          margin = margin_of revenue total_costs;
          cash = st_cash st + (revenue - total_costs)
      in snd (check_failure cash month
           (check_series_b revenue margin (st_cables_deployed st)
             (check_profitability month margin revenue total_costs
               (record_financials margin cash revenue
                 (record_outputs st (team_after inp month (st_team_size st)) fig))))))"

text \<open>The ledger a trial starts with: every segment at zero.\<close>

definition zero_ledger :: ledger where
  "zero_ledger = map (\<lambda>seg. (seg, 0)) segments"

definition before_month_0 :: "trial_state \<Rightarrow> bool" where
  "before_month_0 s \<longleftrightarrow> st_customers s = zero_ledger
     \<and> customers_by_segment (st_outputs s) = [] \<and> total_customers (st_outputs s) = []
     \<and> revenue_monthly (st_outputs s) = [] \<and> gross_margin (st_outputs s) = []"

text \<open>Month 0 is recorded with no customer, no revenue and the margin sentinel.\<close>

definition month_0_recorded :: "SimulationOutputs \<Rightarrow> bool" where
  "month_0_recorded out \<longleftrightarrow>
     customers_by_segment out \<noteq> [] \<and> customers_by_segment out ! 0 = zero_ledger
     \<and> total_customers out \<noteq> [] \<and> total_customers out ! 0 = 0
     \<and> revenue_monthly out \<noteq> [] \<and> revenue_monthly out ! 0 = 0
     \<and> gross_margin out \<noteq> [] \<and> gross_margin out ! 0 = - 1"

text \<open>All deployment targets equal the initial cable count.\<close>

definition targets_flat :: "SimulationInputs \<Rightarrow> bool" where
  "targets_flat inp \<longleftrightarrow> target_cables_month_6 inp = initial_cables inp
     \<and> target_cables_month_12 inp = initial_cables inp
     \<and> target_cables_month_18 inp = initial_cables inp"

definition flat_state :: "SimulationInputs \<Rightarrow> trial_state \<Rightarrow> bool" where
  "flat_state inp s \<longleftrightarrow>
     st_cables_deployed s = initial_cables inp \<and> st_deployment_queue s = []
     \<and> (\<forall>c \<in> set (cables_deployed (st_outputs s)). c = initial_cables inp)
     \<and> (team_growth_rate inp = 1 \<longrightarrow>
          st_team_size s = initial_team_size inp
          \<and> (\<forall>t \<in> set (team_size_total (st_outputs s)). t = initial_team_size inp))"

definition dated_profit :: "SimulationOutputs \<Rightarrow> bool" where
  "dated_profit out \<longleftrightarrow> (profitability_achieved out \<longrightarrow> profitability_month out \<noteq> None)"

text \<open>
  A ledger that some call of \<^verbatim>\<open>apply_churn\<close> returned: run on the recording generator,
  the same call returns the same ledger and has made one binomial call per entry of the
  ledger it was given, over that entry's count, each with a probability in \<open>[0, 0.1]\<close>.
\<close>

definition churn_applied :: "'g numpy_random \<Rightarrow> StochasticParameters \<Rightarrow> ledger \<Rightarrow> bool" where
  "churn_applied rng par churned \<longleftrightarrow>
     (\<exists>customers h h' calls.
        apply_churn rng par customers h = Inr (churned, h')
        \<and> apply_churn (logging rng) par customers (h, []) = Inr (churned, (h', calls))
        \<and> map fst calls = map snd customers
        \<and> (\<forall>p \<in> set (map snd calls). 0 \<le> p \<and> p \<le> 1 / 10))"

text \<open>Some trial of the batch recorded a month: no list of final values is empty.\<close>

definition final_values_recorded :: "SimulationOutputs list \<Rightarrow> bool" where
  "final_values_recorded results \<longleftrightarrow>
     finals cables_deployed results \<noteq> [] \<and> finals total_customers results \<noteq> []
     \<and> finals arr results \<noteq> [] \<and> finals cash_remaining results \<noteq> []
     \<and> finals team_size_total results \<noteq> []"

text \<open>Projections of a result, for statements about runs.\<close>

definition cables_and_team :: "SimulationOutputs \<Rightarrow> int list \<times> int list" where
  "cables_and_team out = (cables_deployed out, team_size_total out)"

definition series_b_and_arr :: "trial_state \<Rightarrow> bool \<times> real list" where
  "series_b_and_arr st = (series_b_qualified (st_outputs st), arr (st_outputs st))"

section \<open>Example configurations and runs\<close>

text \<open>Funding that does not cover the initial capital outlay.\<close>

definition underfunded :: SimulationInputs where
  "underfunded = default_inputs\<lparr>series_a_funding := 500000\<rparr>"

definition two_months :: SimulationInputs where
  "two_months = default_inputs\<lparr>simulation_months := 2\<rparr>"

definition one_month :: SimulationInputs where
  "one_month = default_inputs\<lparr>simulation_months := 1\<rparr>"

definition no_erosion :: StochasticParameters where
  "no_erosion = default_params\<lparr>competitive_pressure_annual := 0\<rparr>"

text \<open>Seven months with flat deployment targets; the team multiplier is one, or zero.\<close>

definition steady :: SimulationInputs where
  "steady = default_inputs\<lparr>target_cables_month_6 := 3, target_cables_month_12 := 3,
     target_cables_month_18 := 3, team_growth_rate := 1, simulation_months := 7\<rparr>"

definition shrinking :: SimulationInputs where
  "shrinking = default_inputs\<lparr>target_cables_month_6 := 3, target_cables_month_12 := 3,
     target_cables_month_18 := 3, team_growth_rate := 0, simulation_months := 7\<rparr>"

text \<open>A negative horizon and a negative price; a horizon of zero.\<close>

definition invalid_inputs :: SimulationInputs where
  "invalid_inputs = default_inputs\<lparr>simulation_months := - 1, pricing_port := - 35000\<rparr>"

definition zero_horizon :: SimulationInputs where
  "zero_horizon = default_inputs\<lparr>simulation_months := 0\<rparr>"

text \<open>
  Parameters numpy refuses inside a trial (a negative scale), and a competitive pressure
  above one, which makes the base of the price erosion negative.
\<close>

definition negative_variation :: StochasticParameters where
  "negative_variation = default_params\<lparr>edge_capex_variation := - 1\<rparr>"

definition overpressure :: StochasticParameters where
  "overpressure = default_params\<lparr>competitive_pressure_annual := 2\<rparr>"

text \<open>
  Draws: one port-authority lead converts in month 1 (the eleventh binomial draw); the
  churn, accuracy and uptime draws of month 0 (the seventh, fourteenth and fifteenth
  normal draws) fall outside their ranges; two lead times of \<open>2 + 0.5 * (- 7) = - 1.5\<close>
  months.
\<close>

definition first_sale :: "int \<Rightarrow> tapes" where
  "first_sale i = \<lparr>gauss_tape = [], binomial_tape = [0, 0, 0, 0, 0, 0, 0, 0, 0, 0, 1]\<rparr>"

definition wild :: "int \<Rightarrow> tapes" where
  "wild i = \<lparr>gauss_tape = [0, 0, 0, 0, 0, 0, 50, 0, 0, 0, 0, 0, 0, 5, - 30], binomial_tape = []\<rparr>"

text \<open>A churn draw of \<open>0.02 + 0.01 * 50 = 0.52\<close>, and one customer lost to it.\<close>

definition heavy_churn :: tapes where
  "heavy_churn = \<lparr>gauss_tape = [50], binomial_tape = [1]\<rparr>"

definition busy_ledger :: ledger where
  "busy_ledger =
     [(PORT_AUTHORITY, 10), (NAVAL_MILITARY, 2), (ENVIRONMENTAL, 0), (SHIPPING_COMPANY, 0),
      (INSURANCE, 0)]"

definition unlucky :: tapes where
  "unlucky = \<lparr>gauss_tape = [- 7, 0, - 7, 0], binomial_tape = []\<rparr>"

text \<open>The state of a default trial before any deployment, and one already qualified.\<close>

definition month_6_state :: trial_state where
  "month_6_state =
     \<lparr>st_cash = 9000000, st_cables_deployed = 3, st_customers = zero_ledger,
      st_team_size = 5, st_regional_datacenters = 0, st_deployment_queue = [],
      st_outputs = SimulationOutputs_init\<rparr>"

definition qualified_state :: trial_state where
  "qualified_state =
     month_6_state\<lparr>st_outputs := SimulationOutputs_init\<lparr>series_b_qualified := True\<rparr>\<rparr>"

definition quiet_roles :: "(string \<times> int) list" where
  "quiet_roles =
     [(''signal_processing_ml'', 1), (''data_engineering'', 1), (''cloud_devops'', 1),
      (''edge_hardware'', 0), (''product_engineering'', 1)]"

definition quiet_costs :: "(string \<times> real) list" where
  "quiet_costs =
     [(''infrastructure'', 52500), (''personnel'', 173750 / 3), (''sales_marketing'', 75000),
      (''support'', 1500)]"

definition underfunded_outputs :: SimulationOutputs where
  "underfunded_outputs =
     \<lparr>months = [0], cables_deployed = [3], customers_by_segment = [zero_ledger],
      total_customers = [0], detection_accuracy = [97 / 100], detections_per_day = [145],
      system_uptime = [199 / 200], regional_datacenters = [0], team_size_total = [5],
      team_by_role = [quiet_roles], revenue_monthly = [0], costs_monthly = [560750 / 3],
      costs_breakdown = [quiet_costs], gross_margin = [- 1],
      cash_remaining = [- (2060750 / 3)], arr = [0],
      profitability_achieved = False, profitability_month = None,
      series_b_qualified = False, ran_out_of_cash = True, failure_month = Some 0\<rparr>"

definition first_sale_outputs :: SimulationOutputs where
  "first_sale_outputs =
     \<lparr>months = [0, 1], cables_deployed = [3, 3],
      customers_by_segment =
        [zero_ledger,
         [(PORT_AUTHORITY, 1), (NAVAL_MILITARY, 0), (ENVIRONMENTAL, 0), (SHIPPING_COMPANY, 0),
          (INSURANCE, 0)]],
      total_customers = [0, 1], detection_accuracy = [97 / 100, 97 / 100],
      detections_per_day = [145, 145], system_uptime = [199 / 200, 199 / 200],
      regional_datacenters = [0, 0], team_size_total = [5, 5],
      team_by_role = [quiet_roles, quiet_roles], revenue_monthly = [0, 35000],
      costs_monthly = [560750 / 3, 560750 / 3], costs_breakdown = [quiet_costs, quiet_costs],
      gross_margin = [- 1, - (1823 / 420)],
      cash_remaining = [26439250 / 3, 25983500 / 3], arr = [0, 420000],
      profitability_achieved = False, profitability_month = None,
      series_b_qualified = False, ran_out_of_cash = False, failure_month = None\<rparr>"

definition clamped_outputs :: SimulationOutputs where
  "clamped_outputs =
     \<lparr>months = [0], cables_deployed = [3], customers_by_segment = [zero_ledger],
      total_customers = [0], detection_accuracy = [1], detections_per_day = [150],
      system_uptime = [9 / 10], regional_datacenters = [0], team_size_total = [5],
      team_by_role = [quiet_roles], revenue_monthly = [0], costs_monthly = [560750 / 3],
      costs_breakdown = [quiet_costs], gross_margin = [- 1],
      cash_remaining = [26439250 / 3], arr = [0],
      profitability_achieved = False, profitability_month = None,
      series_b_qualified = False, ran_out_of_cash = False, failure_month = None\<rparr>"


text \<open>
  A batch of three trajectories of two months, the first and the last marked profitable
  in months 4 and 8.
\<close>

definition profitable_at :: "int \<Rightarrow> SimulationOutputs" where
  "profitable_at month =
     first_sale_outputs\<lparr>profitability_achieved := True, profitability_month := Some month\<rparr>"

definition sample_batch :: "SimulationOutputs list" where
  "sample_batch = [profitable_at 4, first_sale_outputs, profitable_at 8]"

section \<open>The generator monad and the phases of a month\<close>

lemma rbind_Inr: "rbind m f g = Inr r \<longleftrightarrow> (\<exists>x g'. m g = Inr (x, g') \<and> f x g' = Inr r)"
  by (auto simp: rbind_def split: sum.splits)

lemma rreturn_Inr: "rreturn x g = Inr (y, g') \<longleftrightarrow> y = x \<and> g' = g"
  by (auto simp: rreturn_def)

lemma rlift_Inr: "rlift r g = Inr (x, g') \<longleftrightarrow> r = Inr x \<and> g' = g"
  by (auto simp: rlift_def split: sum.splits)

lemma rraise_Inr: "rraise e g \<noteq> Inr r"
  by (simp add: rraise_def)

lemma deploy_loop_keeps:
  "deploy_loop rng inp par month k st g = Inr (st', g') \<Longrightarrow>
     st_outputs st' = st_outputs st \<and> st_cables_deployed st' = st_cables_deployed st
     \<and> st_team_size st' = st_team_size st \<and> st_customers st' = st_customers st
     \<and> st_regional_datacenters st' = st_regional_datacenters st"
proof (induction k arbitrary: st g)
  case 0
  then show ?case by (simp add: rreturn_Inr)
next
  case (Suc k)
  then show ?case
    by (fastforce simp: rbind_Inr Let_def split: prod.splits)
qed

lemma plan_deployments_keeps:
  "plan_deployments rng inp par month st g = Inr (st', g') \<Longrightarrow>
     st_outputs st' = st_outputs st \<and> st_cables_deployed st' = st_cables_deployed st
     \<and> st_team_size st' = st_team_size st \<and> st_customers st' = st_customers st
     \<and> st_regional_datacenters st' = st_regional_datacenters st"
  by (auto simp: plan_deployments_def Let_def rreturn_Inr split: if_splits dest: deploy_loop_keeps)

lemma deployment_phase_keeps:
  assumes "deployment_phase rng inp par month st g = Inr (st', g')"
  shows "st_outputs st' = (st_outputs st)\<lparr>months := months (st_outputs st) @ [month]\<rparr>"
    and "st_team_size st' = st_team_size st"
    and "st_customers st' = st_customers st"
  using assms
  by (auto simp: deployment_phase_def Let_def rbind_Inr rreturn_Inr
      process_deployment_queue_def regional_datacenter_decision_def
      dest!: plan_deployments_keeps split: if_splits)

lemma simulate_month_phases:
  "simulate_month rng inp par month st g = Inr ((stop, st'), g') \<longleftrightarrow>
     (\<exists>st1 g1 fig. deployment_phase rng inp par month st g = Inr (st1, g1)
        \<and> business_phase rng inp par month st1 g1 = Inr (fig, g')
        \<and> record_phase inp month fig st1 = Inr (stop, st'))"
  by (auto simp: simulate_month_def rbind_Inr rlift_Inr)

lemma run_months_rule:
  assumes run: "run_months rng inp par (map int [k..<n]) st g = Inr (st', g')"
    and init: "I k st"
    and step: "\<And>j s s' h h'. k \<le> j \<Longrightarrow> j < n \<Longrightarrow> I j s \<Longrightarrow>
                 simulate_month rng inp par (int j) s h = Inr ((False, s'), h') \<Longrightarrow> I (Suc j) s'"
    and stop: "\<And>j s s' h h'. k \<le> j \<Longrightarrow> j < n \<Longrightarrow> I j s \<Longrightarrow>
                 simulate_month rng inp par (int j) s h = Inr ((True, s'), h') \<Longrightarrow> Q s'"
    and fin: "\<And>j s. k \<le> j \<Longrightarrow> n \<le> j \<Longrightarrow> I j s \<Longrightarrow> Q s"
  shows "Q st'"
  using run init step stop fin
proof (induction "n - k" arbitrary: k st g)
  case 0
  then have "[k..<n] = []" by simp
  with "0.prems"(1) have "st' = st" by (simp add: rreturn_Inr)
  moreover from "0.hyps" have "n \<le> k" by simp
  ultimately show ?case using "0.prems"(2) "0.prems"(5)[of k st] by simp
next
  case (Suc d)
  then have kn: "k < n" by simp
  then have upt: "[k..<n] = k # [Suc k..<n]" by (simp add: upt_conv_Cons)
  from Suc.prems(1) obtain b s1 g1 where
    sm: "simulate_month rng inp par (int k) st g = Inr ((b, s1), g1)" and
    rest: "(if b then rreturn s1 else run_months rng inp par (map int [Suc k..<n]) s1) g1 = Inr (st', g')"
    unfolding upt by (auto simp: rbind_Inr)
  show ?case
  proof (cases b)
    case True
    with rest have "st' = s1" by (simp add: rreturn_Inr)
    moreover from True sm Suc.prems(2) kn have "Q s1" using Suc.prems(4)[of k st g s1 g1] by simp
    ultimately show ?thesis by simp
  next
    case False
    with rest have r: "run_months rng inp par (map int [Suc k..<n]) s1 g1 = Inr (st', g')" by simp
    from False sm Suc.prems(2) kn have i: "I (Suc k) s1" using Suc.prems(3)[of k st g s1 g1] by simp
    have d: "d = n - Suc k" using Suc.hyps(2) by simp
    show ?thesis
    proof (rule Suc.hyps(1)[OF d r i])
      fix j s s' h h'
      assume "Suc k \<le> j" "j < n" "I j s" "simulate_month rng inp par (int j) s h = Inr ((False, s'), h')"
      then show "I (Suc j) s'" using Suc.prems(3)[of j s h s' h'] by simp
    next
      fix j s s' h h'
      assume "Suc k \<le> j" "j < n" "I j s" "simulate_month rng inp par (int j) s h = Inr ((True, s'), h')"
      then show "Q s'" using Suc.prems(4)[of j s h s' h'] by simp
    next
      fix j s
      assume "Suc k \<le> j" "n \<le> j" "I j s"
      then show "Q s" using Suc.prems(5)[of j s] by simp
    qed
  qed
qed

lemma run_single_simulation_Inr:
  assumes "run_single_simulation rng inp par seed g = Inr (out, g')"
  obtains edge_capex g1 st' where
    "run_months rng inp par (map int [0..<nat (simulation_months inp)]) (initial_state inp edge_capex) g1
       = Inr (st', g')" and "out = st_outputs st'"
  using assms
  by (auto simp: run_single_simulation_def rbind_Inr rreturn_Inr py_range_def split: prod.splits)

section \<open>The recording steps of a month\<close>

lemma gross_margin_of_eq: "gross_margin_of revenue total_costs = Inr (margin_of revenue total_costs)"
  by (simp add: gross_margin_of_def margin_of_def py_truediv_def)

lemma record_phase_eq:
  "record_phase inp month fig st =
     Inr (st_cash st + (m_revenue fig - m_total_costs fig) < 0,
          st\<lparr>st_cash := st_cash st + (m_revenue fig - m_total_costs fig),
             st_customers := m_customers fig,
             st_team_size := team_after inp month (st_team_size st),
             st_outputs := month_outputs inp month fig st\<rparr>)"
  by (simp add: record_phase_def gross_margin_of_eq month_outputs_def team_after_def Let_def
      check_failure_def split: prod.splits)

lemma month_outputs_lists:
  "months (month_outputs inp month fig st) = months (st_outputs st)"
  "cables_deployed (month_outputs inp month fig st) = cables_deployed (st_outputs st) @ [st_cables_deployed st]"
  "customers_by_segment (month_outputs inp month fig st) = customers_by_segment (st_outputs st) @ [m_customers fig]"
  "total_customers (month_outputs inp month fig st) = total_customers (st_outputs st) @ [sum_list (map snd (m_customers fig))]"
  "detection_accuracy (month_outputs inp month fig st) = detection_accuracy (st_outputs st) @ [m_detection_accuracy fig]"
  "detections_per_day (month_outputs inp month fig st) = detections_per_day (st_outputs st) @ [m_detections fig]"
  "system_uptime (month_outputs inp month fig st) = system_uptime (st_outputs st) @ [m_system_uptime fig]"
  "regional_datacenters (month_outputs inp month fig st) = regional_datacenters (st_outputs st) @ [st_regional_datacenters st]"
  "team_size_total (month_outputs inp month fig st) = team_size_total (st_outputs st) @ [team_after inp month (st_team_size st)]"
  "team_by_role (month_outputs inp month fig st) = team_by_role (st_outputs st) @ [m_team_breakdown fig]"
  "revenue_monthly (month_outputs inp month fig st) = revenue_monthly (st_outputs st) @ [m_revenue fig]"
  "costs_monthly (month_outputs inp month fig st) = costs_monthly (st_outputs st) @ [m_total_costs fig]"
  "costs_breakdown (month_outputs inp month fig st) = costs_breakdown (st_outputs st) @ [m_costs_breakdown fig]"
  "gross_margin (month_outputs inp month fig st) = gross_margin (st_outputs st) @ [margin_of (m_revenue fig) (m_total_costs fig)]"
  "cash_remaining (month_outputs inp month fig st) = cash_remaining (st_outputs st) @ [st_cash st + (m_revenue fig - m_total_costs fig)]"
  "arr (month_outputs inp month fig st) = arr (st_outputs st) @ [m_revenue fig * 12]"
  by (simp_all add: month_outputs_def Let_def check_failure_def check_series_b_def
      check_profitability_def record_financials_def record_outputs_def)

lemma month_outputs_flags:
  "series_b_qualified (month_outputs inp month fig st) \<longleftrightarrow>
     series_b_qualified (st_outputs st) \<or>
     (m_revenue fig * 12 > 30000000 \<and> margin_of (m_revenue fig) (m_total_costs fig) > 6 / 10
        \<and> st_cables_deployed st \<ge> 15)"
  "ran_out_of_cash (month_outputs inp month fig st) \<longleftrightarrow>
     ran_out_of_cash (st_outputs st) \<or> st_cash st + (m_revenue fig - m_total_costs fig) < 0"
  "failure_month (month_outputs inp month fig st) =
     (if st_cash st + (m_revenue fig - m_total_costs fig) < 0 then Some month
      else failure_month (st_outputs st))"
  "profitability_achieved (month_outputs inp month fig st) \<longleftrightarrow>
     profitability_achieved (st_outputs st) \<or>
     (margin_of (m_revenue fig) (m_total_costs fig) > 7 / 10 \<and> m_revenue fig > m_total_costs fig)"
  "profitability_month (month_outputs inp month fig st) =
     (if \<not> profitability_achieved (st_outputs st) \<and>
         margin_of (m_revenue fig) (m_total_costs fig) > 7 / 10 \<and> m_revenue fig > m_total_costs fig
      then Some month else profitability_month (st_outputs st))"
  by (auto simp add: month_outputs_def Let_def check_failure_def check_series_b_def
      check_profitability_def record_financials_def record_outputs_def)

lemma simulate_month_Inr:
  assumes "simulate_month rng inp par month st g = Inr ((stop, st'), g')"
  obtains st1 g1 fig where
    "deployment_phase rng inp par month st g = Inr (st1, g1)"
    "business_phase rng inp par month st1 g1 = Inr (fig, g')"
    "stop \<longleftrightarrow> st_cash st1 + (m_revenue fig - m_total_costs fig) < 0"
    "st_outputs st' = month_outputs inp month fig st1"
    "st_team_size st' = team_after inp month (st_team_size st1)"
    "st_customers st' = m_customers fig"
    "st_cables_deployed st' = st_cables_deployed st1"
    "st_deployment_queue st' = st_deployment_queue st1"
  using assms by (auto simp: simulate_month_phases record_phase_eq)

section \<open>Properties of a trial\<close>

lemma simulate_month_running:
  assumes sm: "simulate_month rng inp par (int j) s h = Inr ((b, s'), h')" and r: "running j s"
  shows "recorded_months (st_outputs s') (Suc j)" and "months (st_outputs s') = map int [0..<Suc j]"
    and "b \<Longrightarrow> ran_out_of_cash (st_outputs s') \<and> failure_month (st_outputs s') = Some (int j)"
    and "\<not> b \<Longrightarrow> \<not> ran_out_of_cash (st_outputs s')"
proof -
  from sm obtain st1 g1 fig where
    d: "deployment_phase rng inp par (int j) s h = Inr (st1, g1)" and
    b: "b \<longleftrightarrow> st_cash st1 + (m_revenue fig - m_total_costs fig) < 0" and
    o: "st_outputs s' = month_outputs inp (int j) fig st1"
    by (rule simulate_month_Inr)
  note o1 = deployment_phase_keeps(1)[OF d]
  from r show "recorded_months (st_outputs s') (Suc j)"
    by (simp add: o o1 running_def recorded_months_def month_outputs_lists)
  from r show "months (st_outputs s') = map int [0..<Suc j]"
    by (simp add: o o1 running_def month_outputs_lists)
  show "b \<Longrightarrow> ran_out_of_cash (st_outputs s') \<and> failure_month (st_outputs s') = Some (int j)"
    using b by (simp add: o month_outputs_flags)
  show "\<not> b \<Longrightarrow> \<not> ran_out_of_cash (st_outputs s')"
    using b r by (simp add: o o1 month_outputs_flags running_def)
qed

text \<open>
  C3. A trial that returns with \<open>ran_out_of_cash\<close> set has \<open>failure_month = k\<close> for a month
  \<open>k\<close> of the horizon, the recorded months are exactly \<open>0, \<dots>, k\<close>, so \<open>k\<close> is the index of
  the last recorded month, and each of the sixteen per-month sequences has \<open>k + 1\<close>
  entries: nothing is simulated after the failure month.
\<close>

theorem terminal_consistency:
  assumes run: "run_single_simulation rng inp par seed g = Inr (out, g')"
    and failed: "ran_out_of_cash out"
  shows "\<exists>k. failure_month out = Some (int k) \<and> int k < simulation_months inp
           \<and> months out = map int [0..<Suc k] \<and> recorded_months out (Suc k)"
proof -
  from run obtain edge_capex g1 st' where
    rm: "run_months rng inp par (map int [0..<nat (simulation_months inp)])
           (initial_state inp edge_capex) g1 = Inr (st', g')" and
    out: "out = st_outputs st'"
    by (rule run_single_simulation_Inr)
  let ?Q = "\<lambda>s. ran_out_of_cash (st_outputs s) \<longrightarrow>
     (\<exists>k. failure_month (st_outputs s) = Some (int k) \<and> int k < simulation_months inp
        \<and> months (st_outputs s) = map int [0..<Suc k] \<and> recorded_months (st_outputs s) (Suc k))"
  have "?Q st'"
  proof (rule run_months_rule[OF rm, where I = running and Q = ?Q])
    show "running 0 (initial_state inp edge_capex)"
      by (simp add: running_def recorded_months_def initial_state_def SimulationOutputs_init_def)
  next
    fix j s s' h h'
    assume "j < nat (simulation_months inp)" "running j s"
      "simulate_month rng inp par (int j) s h = Inr ((False, s'), h')"
    then show "running (Suc j) s'"
      using simulate_month_running[of rng inp par j s h False s' h'] by (simp add: running_def)
  next
    fix j s s' h h'
    assume "j < nat (simulation_months inp)" "running j s"
      "simulate_month rng inp par (int j) s h = Inr ((True, s'), h')"
    then show "?Q s'"
      using simulate_month_running[of rng inp par j s h True s' h'] by auto
  next
    fix j s
    assume "running j s"
    then show "?Q s" by (simp add: running_def)
  qed
  with failed out show ?thesis by simp
qed

lemma business_phase_clamped:
  assumes "business_phase rng inp par month st g = Inr (fig, g')"
  shows "8 / 10 \<le> m_detection_accuracy fig \<and> m_detection_accuracy fig \<le> 1
       \<and> 9 / 10 \<le> m_system_uptime fig \<and> m_system_uptime fig \<le> 1"
  using assms
  by (auto simp: business_phase_def rbind_Inr rreturn_Inr Let_def split: prod.splits)

lemma churn_rate_of_range: "0 \<le> churn_rate_of draw \<and> churn_rate_of draw \<le> 1 / 10"
  by (simp add: churn_rate_of_def)

lemma np_normal_logging:
  "np_normal (logging rng) loc scale (h, calls) =
     (case np_normal rng loc scale h of Inl e \<Rightarrow> Inl e | Inr (x, h') \<Rightarrow> Inr (x, (h', calls)))"
  by (simp add: np_normal_def logging_def split: prod.splits)

lemma np_binomial_logging:
  "np_binomial (logging rng) n p (h, calls) =
     (case np_binomial rng n p h of
        Inl e \<Rightarrow> Inl e
      | Inr (k, h') \<Rightarrow> Inr (k, (h', calls @ [(n, p)])))"
  by (simp add: np_binomial_def logging_def split: prod.splits)

lemma churn_loop_logging:
  assumes "churn_loop rng rate customers acc h = Inr (churned, h')"
  shows "churn_loop (logging rng) rate customers acc (h, calls)
       = Inr (churned, (h', calls @ map (\<lambda>(segment, count). (count, rate)) customers))"
  using assms
proof (induction customers arbitrary: acc h calls)
  case Nil
  then show ?case by (simp add: rreturn_def)
next
  case (Cons entry rest)
  obtain segment count where e: "entry = (segment, count)" by (cases entry)
  from Cons.prems obtain k h1 where
    b: "np_binomial rng count rate h = Inr (k, h1)" and
    r: "churn_loop rng rate rest (AList.update segment (max 0 (count - k)) acc) h1 = Inr (churned, h')"
    by (auto simp: e rbind_Inr)
  from Cons.IH[OF r, of "calls @ [(count, rate)]"] b show ?case
    by (simp add: e rbind_def np_binomial_logging)
qed

lemma apply_churn_logging:
  assumes "apply_churn rng par customers h = Inr (churned, h')"
  shows "\<exists>draw. apply_churn (logging rng) par customers (h, calls)
       = Inr (churned, (h', calls @ map (\<lambda>(segment, count). (count, churn_rate_of draw)) customers))"
proof -
  from assms obtain draw h1 where
    n: "np_normal rng (churn_rate_monthly_mean par) (churn_rate_monthly_std par) h = Inr (draw, h1)" and
    c: "churn_loop rng (churn_rate_of draw) customers [] h1 = Inr (churned, h')"
    by (auto simp: apply_churn_def rbind_Inr)
  from churn_loop_logging[OF c, of calls] n have
    "apply_churn (logging rng) par customers (h, calls)
       = Inr (churned, (h', calls @ map (\<lambda>(segment, count). (count, churn_rate_of draw)) customers))"
    by (simp add: apply_churn_def rbind_def np_normal_logging)
  then show ?thesis by blast
qed

lemma apply_churn_applied:
  assumes "apply_churn rng par customers h = Inr (churned, h')"
  shows "churn_applied rng par churned"
proof -
  from apply_churn_logging[OF assms, of "[]"] obtain draw where
    l: "apply_churn (logging rng) par customers (h, [])
       = Inr (churned, (h', map (\<lambda>(segment, count). (count, churn_rate_of draw)) customers))"
    by auto
  let ?calls = "map (\<lambda>(segment, count). (count, churn_rate_of draw)) customers"
  have "map fst ?calls = map snd customers" by (induction customers) auto
  moreover have "\<forall>p \<in> set (map snd ?calls). 0 \<le> p \<and> p \<le> 1 / 10"
    using churn_rate_of_range by auto
  ultimately show ?thesis unfolding churn_applied_def using assms l by blast
qed

lemma business_phase_churn:
  assumes "business_phase rng inp par month st g = Inr (fig, g')"
  shows "churn_applied rng par (m_customers fig)"
proof -
  from assms obtain customers h h' where
    "apply_churn rng par customers h = Inr (m_customers fig, h')"
    by (auto simp: business_phase_def rbind_Inr rreturn_Inr rlift_Inr Let_def split: prod.splits)
  then show ?thesis by (rule apply_churn_applied)
qed

text \<open>
  C6. In every trial that returns, every recorded detection accuracy lies in \<open>[0.8, 1]\<close>
  and every recorded system uptime in \<open>[0.9, 1]\<close>; and the ledger recorded for each
  month is the result of a call of \<open>apply_churn\<close> whose binomial draws, one per entry of
  the ledger it was given, were all made with a churn rate in \<open>[0, 0.1]\<close>.
\<close>

theorem clamping:
  assumes run: "run_single_simulation rng inp par seed g = Inr (out, g')"
  shows "(\<forall>a \<in> set (detection_accuracy out). 8 / 10 \<le> a \<and> a \<le> 1)
       \<and> (\<forall>u \<in> set (system_uptime out). 9 / 10 \<le> u \<and> u \<le> 1)
       \<and> (\<forall>churned \<in> set (customers_by_segment out). churn_applied rng par churned)"
proof -
  from run obtain edge_capex g1 st' where
    rm: "run_months rng inp par (map int [0..<nat (simulation_months inp)])
           (initial_state inp edge_capex) g1 = Inr (st', g')" and
    out: "out = st_outputs st'"
    by (rule run_single_simulation_Inr)
  let ?P = "\<lambda>s. (\<forall>a \<in> set (detection_accuracy (st_outputs s)). 8 / 10 \<le> a \<and> a \<le> 1)
       \<and> (\<forall>u \<in> set (system_uptime (st_outputs s)). 9 / 10 \<le> u \<and> u \<le> 1)
       \<and> (\<forall>churned \<in> set (customers_by_segment (st_outputs s)). churn_applied rng par churned)"
  have step: "?P s'" if "simulate_month rng inp par (int j) s h = Inr ((b, s'), h')" "?P s"
    for j s h b s' h'
  proof -
    from that(1) obtain st1 g1 fig where
      d: "deployment_phase rng inp par (int j) s h = Inr (st1, g1)" and
      bp: "business_phase rng inp par (int j) st1 g1 = Inr (fig, h')" and
      o: "st_outputs s' = month_outputs inp (int j) fig st1"
      by (rule simulate_month_Inr)
    from business_phase_clamped[OF bp] business_phase_churn[OF bp] that(2) show ?thesis
      by (simp add: o deployment_phase_keeps(1)[OF d] month_outputs_lists)
  qed
  have "?P st'"
  proof (rule run_months_rule[OF rm, where I = "\<lambda>j. ?P" and Q = ?P])
    show "?P (initial_state inp edge_capex)"
      by (simp add: initial_state_def SimulationOutputs_init_def)
  qed (use step in blast)+
  then show ?thesis unfolding out by blast
qed

text \<open>
  C7. In every trial that returns, the gross margin recorded for a month is
  \<open>(revenue - cost) / revenue\<close> when the month's recorded revenue is positive and \<open>-1\<close>
  otherwise (in particular when it is zero); the computation of the margin never
  divides by zero.
\<close>

theorem gross_margin_guarded:
  assumes run: "run_single_simulation rng inp par seed g = Inr (out, g')"
  shows "length (revenue_monthly out) = length (gross_margin out)
       \<and> length (costs_monthly out) = length (gross_margin out)
       \<and> (\<forall>i < length (gross_margin out).
            gross_margin out ! i =
              (if revenue_monthly out ! i > 0
               then (revenue_monthly out ! i - costs_monthly out ! i) / revenue_monthly out ! i
               else - 1))
       \<and> (\<forall>revenue total_costs. gross_margin_of revenue total_costs \<noteq> Inl ZeroDivisionError)"
proof -
  from run obtain edge_capex g1 st' where
    rm: "run_months rng inp par (map int [0..<nat (simulation_months inp)])
           (initial_state inp edge_capex) g1 = Inr (st', g')" and
    out: "out = st_outputs st'"
    by (rule run_single_simulation_Inr)
  let ?P = "\<lambda>s. gross_margin (st_outputs s) =
      map2 margin_of (revenue_monthly (st_outputs s)) (costs_monthly (st_outputs s))
    \<and> length (revenue_monthly (st_outputs s)) = length (costs_monthly (st_outputs s))"
  have step: "?P s'" if "simulate_month rng inp par (int j) s h = Inr ((b, s'), h')" "?P s"
    for j s h b s' h'
  proof -
    from that(1) obtain st1 g1 fig where
      d: "deployment_phase rng inp par (int j) s h = Inr (st1, g1)" and
      o: "st_outputs s' = month_outputs inp (int j) fig st1"
      by (rule simulate_month_Inr)
    from that(2) show ?thesis
      by (simp add: o deployment_phase_keeps(1)[OF d] month_outputs_lists)
  qed
  have "?P st'"
  proof (rule run_months_rule[OF rm, where I = "\<lambda>j. ?P" and Q = ?P])
    show "?P (initial_state inp edge_capex)"
      by (simp add: initial_state_def SimulationOutputs_init_def)
  qed (use step in blast)+
  then have gm: "gross_margin out = map2 margin_of (revenue_monthly out) (costs_monthly out)"
    and len: "length (revenue_monthly out) = length (costs_monthly out)"
    by (simp_all add: out)
  from gm len have l1: "length (revenue_monthly out) = length (gross_margin out)" by simp
  from gm len have l2: "length (costs_monthly out) = length (gross_margin out)" by simp
  have "gross_margin out ! i =
              (if revenue_monthly out ! i > 0
               then (revenue_monthly out ! i - costs_monthly out ! i) / revenue_monthly out ! i
               else - 1)" if "i < length (gross_margin out)" for i
  proof -
    from that l1 l2 have "gross_margin out ! i
      = margin_of (revenue_monthly out ! i) (costs_monthly out ! i)" by (subst gm) simp
    then show ?thesis by (simp only: margin_of_def)
  qed
  moreover have "\<forall>revenue total_costs. gross_margin_of revenue total_costs \<noteq> Inl ZeroDivisionError"
    by (simp add: gross_margin_of_eq)
  ultimately show ?thesis using l1 l2 by blast
qed

lemma simulate_month_series_b:
  assumes "simulate_month rng inp par month st g = Inr ((stop, st'), g')"
    and "series_b_qualified (st_outputs st)"
  shows "series_b_qualified (st_outputs st')"
proof -
  from assms(1) obtain st1 g1 fig where
    d: "deployment_phase rng inp par month st g = Inr (st1, g1)" and
    o: "st_outputs st' = month_outputs inp month fig st1"
    by (rule simulate_month_Inr)
  from assms(2) show ?thesis
    by (simp add: o deployment_phase_keeps(1)[OF d] month_outputs_flags)
qed

text \<open>
  C8. From a state of a trial in which \<open>series_b_qualified\<close> is set, simulating any
  further months leaves it set, whatever revenue, margin and cable count become.
\<close>

theorem series_b_persists:
  assumes "run_months rng inp par later_months st g = Inr (st', g')"
    and "series_b_qualified (st_outputs st)"
  shows "series_b_qualified (st_outputs st')"
  using assms
proof (induction later_months arbitrary: st g)
  case Nil
  then show ?case by (simp add: rreturn_Inr)
next
  case (Cons month rest)
  from Cons.prems(1) obtain stop s1 g1 where
    sm: "simulate_month rng inp par month st g = Inr ((stop, s1), g1)" and
    rest: "(if stop then rreturn s1 else run_months rng inp par rest s1) g1 = Inr (st', g')"
    by (auto simp: rbind_Inr)
  from simulate_month_series_b[OF sm Cons.prems(2)] have q: "series_b_qualified (st_outputs s1)" .
  show ?case
  proof (cases stop)
    case True
    with rest q show ?thesis by (simp add: rreturn_Inr)
  next
    case False
    with rest have "run_months rng inp par rest s1 g1 = Inr (st', g')" by simp
    from Cons.IH[OF this q] show ?thesis .
  qed
qed

lemma py_int_of_int: "py_int (of_int n) = n"
  by (simp add: py_int_def)

lemma np_binomial_zero:
  assumes "binomial_in_range rng" and "np_binomial rng 0 p g = Inr (k, g')"
  shows "k = 0"
proof -
  from assms(2) have "k = fst (rnd_binomial rng 0 p g)"
    by (auto simp: np_binomial_def split: if_splits)
  moreover from assms(1) have "0 \<le> fst (rnd_binomial rng 0 p g) \<and> fst (rnd_binomial rng 0 p g) \<le> 0"
    unfolding binomial_in_range_def by blast
  ultimately show ?thesis by simp
qed

lemma acquisition_loop_month_0:
  assumes "binomial_in_range rng"
    and "\<forall>s \<in> set segs. map_of new s = Some 0"
    and "acquisition_loop rng 0 cables rates segs new g = Inr (new', g')"
  shows "new' = new"
  using assms(2,3)
proof (induction segs arbitrary: g)
  case Nil
  then show ?case by (simp add: rreturn_Inr)
next
  case (Cons seg rest)
  from Cons.prems(2) obtain conversion acquired g1 where
    b: "np_binomial rng 0 conversion g = Inr (acquired, g1)" and
    r: "acquisition_loop rng 0 cables rates rest (AList.update seg acquired new) g1 = Inr (new', g')"
    by (auto simp: sales_effectiveness_def py_int_def rbind_Inr rraise_Inr split: option.splits)
  from np_binomial_zero[OF assms(1) b] have "acquired = 0" .
  moreover from Cons.prems(1) have "map_of new seg = Some 0" by simp
  ultimately have "AList.update seg acquired new = new" by (simp add: update_triv)
  with r Cons.prems(1) Cons.IH show ?case by simp
qed

lemma get_customer_acquisition_month_0:
  assumes "binomial_in_range rng"
    and "get_customer_acquisition rng par 0 cables current g = Inr (new, g')"
  shows "new = zero_ledger"
proof -
  from assms(2) obtain rates g1 where
    "acquisition_loop rng 0 cables rates segments zero_ledger g1 = Inr (new, g')"
    by (auto simp: get_customer_acquisition_def zero_ledger_def rbind_Inr Let_def)
  moreover have "\<forall>s \<in> set segments. map_of zero_ledger s = Some 0"
    by (simp add: zero_ledger_def segments_def)
  ultimately show ?thesis using acquisition_loop_month_0[OF assms(1)] by blast
qed

lemma churn_loop_zero:
  assumes "binomial_in_range rng"
    and "\<forall>c \<in> snd ` set customers. c = 0"
    and "churn_loop rng rate customers churned g = Inr (churned', g')"
  shows "churned' = fold (\<lambda>(segment, count). AList.update segment 0) customers churned"
  using assms(2,3)
proof (induction customers arbitrary: churned g)
  case Nil
  then show ?case by (simp add: rreturn_Inr)
next
  case (Cons entry rest)
  obtain segment count where e: "entry = (segment, count)" by (cases entry)
  with Cons.prems(1) have c: "count = 0" by simp
  from Cons.prems(2) obtain k g1 where
    b: "np_binomial rng 0 rate g = Inr (k, g1)" and
    r: "churn_loop rng rate rest (AList.update segment (max 0 (0 - k)) churned) g1 = Inr (churned', g')"
    by (auto simp: e c rbind_Inr)
  from np_binomial_zero[OF assms(1) b] have "k = 0" .
  with r Cons.prems(1) Cons.IH[of "AList.update segment 0 churned" g1] show ?case
    by (simp add: e)
qed

lemma apply_churn_zero:
  assumes "binomial_in_range rng"
    and "apply_churn rng par zero_ledger g = Inr (customers, g')"
  shows "customers = zero_ledger"
proof -
  from assms(2) obtain draw g1 where
    "churn_loop rng (churn_rate_of draw) zero_ledger [] g1 = Inr (customers, g')"
    by (auto simp: apply_churn_def rbind_Inr)
  moreover have "\<forall>c \<in> snd ` set zero_ledger. c = 0"
    by (simp add: zero_ledger_def segments_def)
  ultimately have "customers = fold (\<lambda>(segment, count). AList.update segment 0) zero_ledger []"
    by (rule churn_loop_zero[OF assms(1), rotated])
  then show ?thesis by (simp add: zero_ledger_def segments_def)
qed

lemma add_new_customers_zero: "add_new_customers zero_ledger zero_ledger = zero_ledger"
  by (simp add: add_new_customers_def zero_ledger_def segments_def)

lemma calculate_revenue_zero: "calculate_revenue inp par zero_ledger 0 = Inr 0"
  by (simp add: calculate_revenue_def py_float_pow_def zero_ledger_def segments_def pricing_def)

lemma business_phase_month_0:
  assumes rng: "binomial_in_range rng"
    and z: "st_customers st = zero_ledger"
    and bp: "business_phase rng inp par 0 st g = Inr (fig, g')"
  shows "m_customers fig = zero_ledger" and "m_revenue fig = 0"
proof -
  from bp obtain new g1 customers g2 revenue where
    a: "get_customer_acquisition rng par 0 (st_cables_deployed st) (st_customers st) g = Inr (new, g1)" and
    c: "apply_churn rng par (add_new_customers new (st_customers st)) g1 = Inr (customers, g2)" and
    r: "calculate_revenue inp par customers 0 = Inr revenue" and
    f: "m_customers fig = customers \<and> m_revenue fig = revenue"
    by (auto simp: business_phase_def rbind_Inr rreturn_Inr rlift_Inr Let_def split: prod.splits)
  from get_customer_acquisition_month_0[OF rng a] have "new = zero_ledger" .
  with c z have "apply_churn rng par zero_ledger g1 = Inr (customers, g2)"
    by (simp add: add_new_customers_zero)
  from apply_churn_zero[OF rng this] have cz: "customers = zero_ledger" .
  with r have "revenue = 0" by (simp add: calculate_revenue_zero)
  with cz f show "m_customers fig = zero_ledger" and "m_revenue fig = 0" by simp_all
qed

text \<open>
  C10. With a generator whose binomial draws lie between 0 and the number of trials,
  every trial that returns with a positive horizon has the sales ramp at 0 in month 0
  and records for month 0 a ledger of zero customers, zero revenue and the gross margin
  \<open>-1\<close>.
\<close>

theorem month_0_no_revenue:
  assumes rng: "binomial_in_range rng"
    and run: "run_single_simulation rng inp par seed g = Inr (out, g')"
    and horizon: "0 < simulation_months inp"
  shows "sales_effectiveness 0 = 0 \<and> month_0_recorded out"
proof -
  from run obtain edge_capex g1 st' where
    rm: "run_months rng inp par (map int [0..<nat (simulation_months inp)])
           (initial_state inp edge_capex) g1 = Inr (st', g')" and
    out: "out = st_outputs st'"
    by (rule run_single_simulation_Inr)
  let ?I = "\<lambda>j s. if j = 0 then before_month_0 s else month_0_recorded (st_outputs s)"
  let ?Q = "\<lambda>s. month_0_recorded (st_outputs s)"
  have step: "month_0_recorded (st_outputs s')"
    if sm: "simulate_month rng inp par (int j) s h = Inr ((b, s'), h')" and i: "?I j s"
    for j s h b s' h'
  proof -
    from sm obtain st1 g1 fig where
      d: "deployment_phase rng inp par (int j) s h = Inr (st1, g1)" and
      bp: "business_phase rng inp par (int j) st1 g1 = Inr (fig, h')" and
      o: "st_outputs s' = month_outputs inp (int j) fig st1"
      by (rule simulate_month_Inr)
    note o1 = deployment_phase_keeps(1)[OF d]
    show ?thesis
    proof (cases "j = 0")
      case True
      with i have b0: "before_month_0 s" by simp
      then have "st_customers st1 = zero_ledger"
        by (simp add: deployment_phase_keeps(3)[OF d] before_month_0_def)
      from business_phase_month_0[OF rng this] bp True
      have "m_customers fig = zero_ledger" "m_revenue fig = 0" by simp_all
      with b0 show ?thesis
        by (simp add: month_0_recorded_def before_month_0_def o o1 month_outputs_lists margin_of_def
            zero_ledger_def segments_def)
    next
      case False
      with i have "month_0_recorded (st_outputs s)" by simp
      then show ?thesis
        by (simp add: month_0_recorded_def o o1 month_outputs_lists nth_append)
    qed
  qed
  have "?Q st'"
  proof (rule run_months_rule[OF rm, where I = ?I and Q = ?Q])
    show "?I 0 (initial_state inp edge_capex)"
      by (simp add: before_month_0_def initial_state_def SimulationOutputs_init_def zero_ledger_def)
  next
    fix j s s' h h'
    assume "?I j s" "simulate_month rng inp par (int j) s h = Inr ((False, s'), h')"
    then show "?I (Suc j) s'" using step[of j s h False s' h'] by simp
  next
    fix j s s' h h'
    assume "?I j s" "simulate_month rng inp par (int j) s h = Inr ((True, s'), h')"
    then show "?Q s'" using step[of j s h True s' h'] by simp
  next
    fix j s
    assume "nat (simulation_months inp) \<le> j" "?I j s"
    with horizon show "?Q s" by (auto split: if_splits)
  qed
  then show ?thesis by (simp add: out sales_effectiveness_def)
qed

lemma target_cables_at_flat: "targets_flat inp \<Longrightarrow> target_cables_at inp month = initial_cables inp"
  by (simp add: targets_flat_def target_cables_at_def Let_def)

lemma deployment_phase_idle:
  assumes d: "deployment_phase rng inp par month st g = Inr (st1, g1)"
    and q: "st_deployment_queue st = []"
    and c: "st_cables_deployed st = target_cables_at inp month"
  shows "st_cables_deployed st1 = st_cables_deployed st" and "st_deployment_queue st1 = []"
  using assms
  by (auto simp: deployment_phase_def process_deployment_queue_def plan_deployments_def
      regional_datacenter_decision_def Let_def rbind_Inr rreturn_Inr split: if_splits)

lemma team_after_one: "team_growth_rate inp = 1 \<Longrightarrow> team_after inp month team = team"
  by (simp add: team_after_def py_int_of_int)

text \<open>
  C5, as amended. When the deployment targets of months 6, 12 and 18 all equal the
  initial cable count, every recorded deployed-cable count of a trial equals the initial
  count; when in addition the team growth rate, which is the factor the team size is
  multiplied by every sixth month, is one, every recorded team size equals the initial
  team size.
\<close>

theorem zero_growth:
  assumes run: "run_single_simulation rng inp par seed g = Inr (out, g')"
    and flat: "target_cables_month_6 inp = initial_cables inp"
      "target_cables_month_12 inp = initial_cables inp"
      "target_cables_month_18 inp = initial_cables inp"
  shows "(\<forall>c \<in> set (cables_deployed out). c = initial_cables inp)
       \<and> (team_growth_rate inp = 1 \<longrightarrow>
            (\<forall>t \<in> set (team_size_total out). t = initial_team_size inp))"
proof -
  from flat have tf: "targets_flat inp" by (simp add: targets_flat_def)
  from run obtain edge_capex g1 st' where
    rm: "run_months rng inp par (map int [0..<nat (simulation_months inp)])
           (initial_state inp edge_capex) g1 = Inr (st', g')" and
    out: "out = st_outputs st'"
    by (rule run_single_simulation_Inr)
  have step: "flat_state inp s'"
    if sm: "simulate_month rng inp par (int j) s h = Inr ((b, s'), h')" and i: "flat_state inp s"
    for j s h b s' h'
  proof -
    from sm obtain st1 g1 fig where
      d: "deployment_phase rng inp par (int j) s h = Inr (st1, g1)" and
      o: "st_outputs s' = month_outputs inp (int j) fig st1" and
      t: "st_team_size s' = team_after inp (int j) (st_team_size st1)" and
      c: "st_cables_deployed s' = st_cables_deployed st1" and
      q: "st_deployment_queue s' = st_deployment_queue st1"
      by (rule simulate_month_Inr)
    from i have q0: "st_deployment_queue s = []"
      and c0: "st_cables_deployed s = target_cables_at inp (int j)"
      by (simp_all add: flat_state_def target_cables_at_flat[OF tf])
    note idle = deployment_phase_idle[OF d q0 c0]
    from i show ?thesis
      by (simp add: flat_state_def o t c q idle deployment_phase_keeps(1,2)[OF d]
          month_outputs_lists team_after_one)
  qed
  have "flat_state inp st'"
  proof (rule run_months_rule[OF rm, where I = "\<lambda>j. flat_state inp" and Q = "flat_state inp"])
    show "flat_state inp (initial_state inp edge_capex)"
      by (simp add: flat_state_def initial_state_def SimulationOutputs_init_def)
  qed (use step in blast)+
  then show ?thesis by (simp add: flat_state_def out)
qed

section \<open>Properties of the aggregator and the driver\<close>

lemma sum_profitability_month_Some:
  assumes "\<forall>r \<in> set rs. profitability_month r \<noteq> None"
  shows "sum_profitability_month rs = Inr (sum_list (map (the \<circ> profitability_month) rs))"
  using assms by (induction rs) auto

lemma summarize_Inr: "xs \<noteq> [] \<Longrightarrow> \<exists>s. summarize np xs = Inr s"
  by (simp add: summarize_def)

text \<open>
  C9, as amended. For a batch of outputs in which some trial recorded a month, so that
  no list of final values is empty, and in which every profitable trial carries its
  profitability month, \<open>analyze_results\<close> returns, and its average months to
  profitability is the arithmetic mean of \<open>profitability_month\<close> over exactly the
  trials with \<open>profitability_achieved\<close>, and is absent when there is none.
\<close>

theorem average_months_to_profitability:
  assumes recorded: "final_values_recorded results"
    and dated: "\<forall>r \<in> set results. profitability_achieved r \<longrightarrow> profitability_month r \<noteq> None"
  shows "\<exists>a. analyze_results np results = Inr a \<and>
           avg_months_to_profitability a =
             (if filter profitability_achieved results = [] then None
              else Some (of_int (sum_list (map (the \<circ> profitability_month)
                                            (filter profitability_achieved results)))
                         / of_nat (length (filter profitability_achieved results))))"
proof -
  from dated have "\<forall>r \<in> set (filter profitability_achieved results). profitability_month r \<noteq> None"
    by simp
  from sum_profitability_month_Some[OF this]
  have avg: "avg_months_to_profit results =
      Inr (if filter profitability_achieved results = [] then None
           else Some (of_int (sum_list (map (the \<circ> profitability_month)
                                            (filter profitability_achieved results)))
                         / of_nat (length (filter profitability_achieved results))))"
    by (simp add: avg_months_to_profit_def Let_def)
  from recorded have nonempty: "results \<noteq> []"
    by (auto simp: final_values_recorded_def finals_def)
  from recorded obtain s1 s2 s3 s4 s5 where
    "summarize np (map of_int (finals cables_deployed results)) = Inr s1"
    "summarize np (map of_int (finals total_customers results)) = Inr s2"
    "summarize np (finals arr results) = Inr s3"
    "summarize np (finals cash_remaining results) = Inr s4"
    "summarize np (map of_int (finals team_size_total results)) = Inr s5"
    by (auto simp: final_values_recorded_def summarize_def)
  with nonempty show ?thesis
    by (simp add: analyze_results_def count_rate_def avg Let_def)
qed

lemma run_single_simulation_seeded:
  "run_single_simulation rng inp par (Some s) g1 = run_single_simulation rng inp par (Some s) g2"
  by (simp add: run_single_simulation_def rbind_def np_seed_def)

text \<open>
  C4. The list of outputs of \<open>run_monte_carlo\<close>, or the error it raises, is the same
  whatever the state of the process-wide generator at the call: trial \<open>i\<close> reseeds the
  generator with \<open>i\<close>, so that its result does not depend on what was drawn before.
\<close>

theorem determinism:
  "map_sum id fst (run_monte_carlo rng inp par n g1) = map_sum id fst (run_monte_carlo rng inp par n g2)
   \<and> run_single_simulation rng inp par (Some i) g1 = run_single_simulation rng inp par (Some i) g2"
proof -
  have "map_sum id fst (trial_loop rng inp par seeds acc g1)
      = map_sum id fst (trial_loop rng inp par seeds acc g2)" for seeds acc
  proof (cases seeds)
    case Nil
    then show ?thesis by (simp add: rreturn_def)
  next
    case (Cons s rest)
    then show ?thesis
      by (simp add: rbind_def run_single_simulation_seeded[of rng inp par s g1 g2])
  qed
  then show ?thesis
    by (simp add: run_monte_carlo_def run_single_simulation_seeded[of rng inp par i g1 g2])
qed

lemma get_architecture_costs_Inr:
  assumes "0 \<le> edge_capex_variation par"
  shows "\<exists>r g'. get_architecture_costs rng par arch n g = Inr (r, g')"
  using assms
  by (cases arch) (simp_all add: get_architecture_costs_def rbind_def np_normal_def rreturn_def
      split: prod.splits)

lemma run_single_simulation_no_months:
  assumes "simulation_months inp \<le> 0" and "0 \<le> edge_capex_variation par"
    and "0 \<le> s" and "s < 2 ^ 32"
  shows "\<exists>g'. run_single_simulation rng inp par (Some s) g = Inr (SimulationOutputs_init, g')"
proof -
  from get_architecture_costs_Inr[OF assms(2), where rng = rng and arch = "architecture_option inp"
      and n = 1 and g = "rnd_seed rng s"] obtain r g1 where
    "get_architecture_costs rng par (architecture_option inp) 1 (rnd_seed rng s) = Inr (r, g1)"
    by blast
  with assms(1,3,4) show ?thesis
    by (simp add: run_single_simulation_def rbind_def np_seed_def rreturn_def py_range_def
        initial_state_def split: prod.splits)
qed

lemma trial_loop_no_months:
  assumes "simulation_months inp \<le> 0" and "0 \<le> edge_capex_variation par"
    and "\<forall>s \<in> set seeds. 0 \<le> s \<and> s < 2 ^ 32"
  shows "map_sum id fst (trial_loop rng inp par seeds acc g)
       = Inr (acc @ replicate (length seeds) SimulationOutputs_init)"
  using assms(3)
proof (induction seeds arbitrary: acc g)
  case Nil
  then show ?case by (simp add: rreturn_def)
next
  case (Cons s rest)
  then have "0 \<le> s" "s < 2 ^ 32" by simp_all
  from run_single_simulation_no_months[OF assms(1,2) this, where rng = rng and g = g] obtain g1 where
    "run_single_simulation rng inp par (Some s) g = Inr (SimulationOutputs_init, g1)" by blast
  with Cons show ?case by (simp add: rbind_def replicate_app_Cons_same)
qed

lemma revenue_loop_Inr: "\<exists>r. revenue_loop (pricing inp) erosion customers revenue = Inr r"
proof (induction customers arbitrary: revenue)
  case Nil
  then show ?case by simp
next
  case (Cons entry rest)
  obtain segment count where e: "entry = (segment, count)" by (cases entry)
  have "\<exists>price. map_of (pricing inp) segment = Some price"
    by (cases segment) (simp_all add: pricing_def)
  then obtain price where "map_of (pricing inp) segment = Some price" by blast
  with Cons.IH show ?case by (simp add: e)
qed

lemma calculate_revenue_Inl:
  assumes "calculate_revenue inp par customers month = Inl e"
  shows "py_float_pow (1 - competitive_pressure_annual par) (of_int month / 12) = Inl e"
proof (cases "py_float_pow (1 - competitive_pressure_annual par) (of_int month / 12)")
  case (Inl e')
  with assms show ?thesis by (simp add: calculate_revenue_def)
next
  case (Inr erosion)
  from revenue_loop_Inr[of inp erosion customers 0] obtain r where
    "revenue_loop (pricing inp) erosion customers 0 = Inr r" by blast
  with assms Inr show ?thesis by (simp add: calculate_revenue_def)
qed

lemma trial_loop_Inl:
  assumes "trial_loop rng inp par seeds acc g = Inl e"
  shows "\<exists>i \<in> set seeds. run_single_simulation rng inp par (Some i) g = Inl e"
  using assms
proof (induction seeds arbitrary: acc g)
  case Nil
  then show ?case by (simp add: rreturn_def)
next
  case (Cons s rest)
  show ?case
  proof (cases "run_single_simulation rng inp par (Some s) g")
    case (Inl e')
    with Cons.prems have "e' = e" by (simp add: rbind_def)
    with Inl show ?thesis by simp
  next
    case (Inr r)
    obtain outputs g1 where r: "r = (outputs, g1)" by (cases r)
    from Cons.prems Inr r have "trial_loop rng inp par rest (acc @ [outputs]) g1 = Inl e"
      by (simp add: rbind_def)
    from Cons.IH[OF this] obtain i where
      "i \<in> set rest" "run_single_simulation rng inp par (Some i) g1 = Inl e" by blast
    then have "i \<in> set (s # rest)" "run_single_simulation rng inp par (Some i) g = Inl e"
      using run_single_simulation_seeded[of rng inp par i g g1] by simp_all
    then show ?thesis by blast
  qed
qed

text \<open>
  C1, as amended. No configuration is rejected before the trials start. The constructor
  stores every configuration unchecked. Every error that \<open>run_monte_carlo\<close> raises is
  raised inside one of its trials. Computing the revenue raises only when the power of
  the price erosion does, whatever the prices. For a configuration with a horizon of zero
  or less (a non-negative capex variation, as numpy's normal draw demands, and at most
  \<open>2 ^ 32\<close> trials, as its seeding demands), \<open>run_monte_carlo\<close> runs its trials and returns
  one empty trajectory, no month recorded and no flag set, per trial.
\<close>

theorem no_validation:
  "DASMonteCarloSimulator inp par = Inr (inp, par)
   \<and> (\<forall>e. run_monte_carlo rng inp par n g = Inl e \<longrightarrow>
         (\<exists>i \<in> set (py_range n). run_single_simulation rng inp par (Some i) g = Inl e))
   \<and> (\<forall>e. calculate_revenue inp par customers month = Inl e \<longrightarrow>
         py_float_pow (1 - competitive_pressure_annual par) (of_int month / 12) = Inl e)
   \<and> (simulation_months inp \<le> 0 \<and> 0 \<le> edge_capex_variation par \<and> n \<le> 2 ^ 32 \<longrightarrow>
         map_sum id fst (run_monte_carlo rng inp par n g)
           = Inr (replicate (nat n) SimulationOutputs_init))"
proof (intro conjI allI impI)
  show "DASMonteCarloSimulator inp par = Inr (inp, par)"
    by (simp add: DASMonteCarloSimulator_def)
next
  fix e
  assume "run_monte_carlo rng inp par n g = Inl e"
  then have "trial_loop rng inp par (py_range n) [] g = Inl e"
    by (simp add: run_monte_carlo_def)
  then show "\<exists>i \<in> set (py_range n). run_single_simulation rng inp par (Some i) g = Inl e"
    by (rule trial_loop_Inl)
next
  fix e
  assume "calculate_revenue inp par customers month = Inl e"
  then show "py_float_pow (1 - competitive_pressure_annual par) (of_int month / 12) = Inl e"
    by (rule calculate_revenue_Inl)
next
  assume a: "simulation_months inp \<le> 0 \<and> 0 \<le> edge_capex_variation par \<and> n \<le> 2 ^ 32"
  then have h: "simulation_months inp \<le> 0" "0 \<le> edge_capex_variation par" by simp_all
  from a have "\<forall>s \<in> set (py_range n). 0 \<le> s \<and> s < 2 ^ 32"
    by (auto simp: py_range_def)
  from trial_loop_no_months[OF h this, of rng "[]" g]
  show "map_sum id fst (run_monte_carlo rng inp par n g)
           = Inr (replicate (nat n) SimulationOutputs_init)"
    by (simp add: run_monte_carlo_def py_range_def)
qed

section \<open>Runs on the example configurations\<close>

text \<open>The definitions a concrete run unfolds.\<close>

lemmas run_defs =
  run_single_simulation_def rbind_def rreturn_def rraise_def rlift_def np_seed_def np_normal_def
  np_binomial_def get_architecture_costs_def initial_state_def simulate_month_def
  deployment_phase_def business_phase_def record_phase_def record_outputs_def
  gross_margin_of_def record_financials_def check_profitability_def check_series_b_def
  check_failure_def process_deployment_queue_def plan_deployments_def target_cables_at_def
  regional_datacenter_decision_def get_customer_acquisition_def conversion_rates_def
  segments_def sales_effectiveness_def py_int_def add_new_customers_def apply_churn_def
  churn_rate_of_def calculate_revenue_def py_float_pow_def pricing_def get_team_costs_def
  team_roles_def role_salaries_def calculate_detections_def py_truediv_def
  SimulationOutputs_init_def default_inputs_def default_params_def replay_def no_draws_def
  silent_def zero_ledger_def quiet_roles_def quiet_costs_def Let_def

lemma py_range_nonpos: "n \<le> 0 \<Longrightarrow> py_range n = []"
  by (simp add: py_range_def)

lemma py_range_1: "py_range 1 = [0]"
  by (simp add: py_range_def)

lemma py_range_2: "py_range 2 = [0, 1]"
  by (simp add: py_range_def upt_rec)

lemma py_range_7: "py_range 7 = [0, 1, 2, 3, 4, 5, 6]"
  by (simp add: py_range_def upt_rec)

lemma py_range_24:
  "py_range 24 = [0, 1, 2, 3, 4, 5, 6, 7, 8, 9, 10, 11, 12, 13, 14, 15, 16, 17, 18, 19, 20, 21, 22, 23]"
  by (simp add: py_range_def upt_rec)

lemma replay_in_range: "binomial_in_range (replay seeded)"
  by (auto simp: binomial_in_range_def replay_def split: list.splits)

lemma underfunded_run:
  "run_single_simulation (replay silent) underfunded default_params (Some 0) no_draws
     = Inr (underfunded_outputs, no_draws)"
  by (simp add: run_defs underfunded_def underfunded_outputs_def py_range_24)

lemma first_sale_run:
  "run_single_simulation (replay first_sale) two_months no_erosion (Some 0) no_draws
     = Inr (first_sale_outputs, no_draws)"
  by (simp add: run_defs first_sale_def two_months_def no_erosion_def first_sale_outputs_def
      py_range_2)

lemma clamped_run:
  "run_single_simulation (replay wild) one_month default_params (Some 0) no_draws
     = Inr (clamped_outputs, no_draws)"
  by (simp add: run_defs wild_def one_month_def clamped_outputs_def py_range_1)

text \<open>
  C3 on the underfunded configuration: the trial fails in month 0 and records exactly
  that month.
\<close>

theorem terminal_consistency_witness:
  "run_single_simulation (replay silent) underfunded default_params (Some 0) no_draws
     = Inr (underfunded_outputs, no_draws)
   \<and> ran_out_of_cash underfunded_outputs
   \<and> failure_month underfunded_outputs = Some 0
   \<and> months underfunded_outputs = [0]
   \<and> recorded_months underfunded_outputs 1"
proof -
  have f: "ran_out_of_cash underfunded_outputs" by (simp add: underfunded_outputs_def)
  from terminal_consistency[OF underfunded_run f] obtain k where
    k: "failure_month underfunded_outputs = Some (int k)"
       "months underfunded_outputs = map int [0..<Suc k]"
       "recorded_months underfunded_outputs (Suc k)" by blast
  from k(1) have "k = 0" by (simp add: underfunded_outputs_def)
  with k f underfunded_run show ?thesis by simp
qed

text \<open>
  C6 on a trial whose churn draw is \<open>0.52\<close>, whose accuracy draw is \<open>1.07\<close> and whose
  uptime draw is \<open>0.845\<close>: the recorded values are \<open>1\<close> and \<open>0.9\<close>, and the ledger of
  month 0 comes from a call of \<open>apply_churn\<close> within the range. On a ledger with
  customers, the same churn draw is applied as the rate \<open>0.1\<close> to every entry.
\<close>

theorem clamping_witness:
  "run_single_simulation (replay wild) one_month default_params (Some 0) no_draws
     = Inr (clamped_outputs, no_draws)
   \<and> detection_accuracy clamped_outputs = [1] \<and> system_uptime clamped_outputs = [9 / 10]
   \<and> 8 / 10 \<le> detection_accuracy clamped_outputs ! 0 \<and> detection_accuracy clamped_outputs ! 0 \<le> 1
   \<and> 9 / 10 \<le> system_uptime clamped_outputs ! 0 \<and> system_uptime clamped_outputs ! 0 \<le> 1
   \<and> customers_by_segment clamped_outputs = [zero_ledger]
   \<and> churn_applied (replay wild) default_params zero_ledger
   \<and> apply_churn (logging (replay silent)) default_params busy_ledger (heavy_churn, [])
       = Inr ([(PORT_AUTHORITY, 9), (NAVAL_MILITARY, 2), (ENVIRONMENTAL, 0), (SHIPPING_COMPANY, 0),
               (INSURANCE, 0)],
              (no_draws, [(10, 1 / 10), (2, 1 / 10), (0, 1 / 10), (0, 1 / 10), (0, 1 / 10)]))"
proof -
  note c = clamping[OF clamped_run]
  have l: "customers_by_segment clamped_outputs = [zero_ledger]"
    by (simp add: clamped_outputs_def)
  from c l have a: "churn_applied (replay wild) default_params zero_ledger" by simp
  have e: "apply_churn (logging (replay silent)) default_params busy_ledger (heavy_churn, [])
       = Inr ([(PORT_AUTHORITY, 9), (NAVAL_MILITARY, 2), (ENVIRONMENTAL, 0), (SHIPPING_COMPANY, 0),
               (INSURANCE, 0)],
              (no_draws, [(10, 1 / 10), (2, 1 / 10), (0, 1 / 10), (0, 1 / 10), (0, 1 / 10)]))"
    by (simp add: apply_churn_def rbind_def rreturn_def np_normal_def np_binomial_def logging_def
        replay_def churn_rate_of_def heavy_churn_def busy_ledger_def default_params_def
        no_draws_def)
  from c clamped_run l a e show ?thesis by (simp add: clamped_outputs_def)
qed

text \<open>
  C7 on a trial of two months: no revenue in month 0, the revenue of one port-authority
  customer in month 1.
\<close>

theorem gross_margin_guarded_witness:
  "run_single_simulation (replay first_sale) two_months no_erosion (Some 0) no_draws
     = Inr (first_sale_outputs, no_draws)
   \<and> revenue_monthly first_sale_outputs = [0, 35000]
   \<and> gross_margin first_sale_outputs ! 0 = - 1
   \<and> gross_margin first_sale_outputs ! 1
       = (revenue_monthly first_sale_outputs ! 1 - costs_monthly first_sale_outputs ! 1)
         / revenue_monthly first_sale_outputs ! 1
   \<and> gross_margin_of 0 5 \<noteq> Inl ZeroDivisionError"
proof -
  note g = gross_margin_guarded[OF first_sale_run]
  from g have a: "\<forall>i < length (gross_margin first_sale_outputs).
     gross_margin first_sale_outputs ! i =
       (if revenue_monthly first_sale_outputs ! i > 0
        then (revenue_monthly first_sale_outputs ! i - costs_monthly first_sale_outputs ! i)
             / revenue_monthly first_sale_outputs ! i
        else - 1)" by blast
  have l: "length (gross_margin first_sale_outputs) = 2" by (simp add: first_sale_outputs_def)
  have r: "revenue_monthly first_sale_outputs = [0, 35000]" by (simp add: first_sale_outputs_def)
  from a l have "gross_margin first_sale_outputs ! 0 =
       (if revenue_monthly first_sale_outputs ! 0 > 0
        then (revenue_monthly first_sale_outputs ! 0 - costs_monthly first_sale_outputs ! 0)
             / revenue_monthly first_sale_outputs ! 0
        else - 1)" by simp
  then have m0: "gross_margin first_sale_outputs ! 0 = - 1" by (simp add: r)
  from a l have "gross_margin first_sale_outputs ! 1 =
       (if revenue_monthly first_sale_outputs ! 1 > 0
        then (revenue_monthly first_sale_outputs ! 1 - costs_monthly first_sale_outputs ! 1)
             / revenue_monthly first_sale_outputs ! 1
        else - 1)" by simp
  then have m1: "gross_margin first_sale_outputs ! 1
       = (revenue_monthly first_sale_outputs ! 1 - costs_monthly first_sale_outputs ! 1)
         / revenue_monthly first_sale_outputs ! 1" by (simp add: r)
  from g have "gross_margin_of 0 5 \<noteq> Inl ZeroDivisionError" by blast
  with first_sale_run r m0 m1 show ?thesis by simp
qed

text \<open>C10 on the same trial, run with the replaying generator.\<close>

theorem month_0_no_revenue_witness:
  "run_single_simulation (replay first_sale) two_months no_erosion (Some 0) no_draws
     = Inr (first_sale_outputs, no_draws)
   \<and> 0 < simulation_months two_months
   \<and> sales_effectiveness 0 = 0
   \<and> customers_by_segment first_sale_outputs ! 0 = zero_ledger
   \<and> revenue_monthly first_sale_outputs ! 0 = 0
   \<and> gross_margin first_sale_outputs ! 0 = - 1"
proof -
  have h: "0 < simulation_months two_months" by (simp add: two_months_def default_inputs_def)
  from month_0_no_revenue[OF replay_in_range first_sale_run h] h first_sale_run
  show ?thesis by (simp add: month_0_recorded_def)
qed

text \<open>
  C9, as amended, on a batch of three trajectories, two of them profitable, in months 4
  and 8, and on a batch of one trajectory that is not profitable.
\<close>

theorem average_months_to_profitability_witness:
  "final_values_recorded sample_batch
   \<and> map_sum id avg_months_to_profitability (analyze_results exact_stats sample_batch)
       = Inr (Some 6)
   \<and> map_sum id avg_months_to_profitability (analyze_results exact_stats [first_sale_outputs])
       = Inr None"
proof -
  have n: "final_values_recorded sample_batch"
    by (simp add: final_values_recorded_def finals_def sample_batch_def profitable_at_def
        first_sale_outputs_def)
  have d: "\<forall>r \<in> set sample_batch. profitability_achieved r \<longrightarrow> profitability_month r \<noteq> None"
    by (simp add: sample_batch_def profitable_at_def first_sale_outputs_def)
  from average_months_to_profitability[OF n d, of exact_stats] obtain a where
    "analyze_results exact_stats sample_batch = Inr a" and
    "avg_months_to_profitability a =
       (if filter profitability_achieved sample_batch = [] then None
        else Some (of_int (sum_list (map (the \<circ> profitability_month)
                                      (filter profitability_achieved sample_batch)))
                   / of_nat (length (filter profitability_achieved sample_batch))))"
    by blast
  then have 1: "map_sum id avg_months_to_profitability (analyze_results exact_stats sample_batch)
       = Inr (Some 6)"
    by (simp add: sample_batch_def profitable_at_def first_sale_outputs_def)
  have n2: "final_values_recorded [first_sale_outputs]"
    by (simp add: final_values_recorded_def finals_def first_sale_outputs_def)
  have d2: "\<forall>r \<in> set [first_sale_outputs]. profitability_achieved r \<longrightarrow> profitability_month r \<noteq> None"
    by (simp add: first_sale_outputs_def)
  from average_months_to_profitability[OF n2 d2, of exact_stats] obtain b where
    "analyze_results exact_stats [first_sale_outputs] = Inr b" and
    "avg_months_to_profitability b =
       (if filter profitability_achieved [first_sale_outputs] = [] then None
        else Some (of_int (sum_list (map (the \<circ> profitability_month)
                                      (filter profitability_achieved [first_sale_outputs])))
                   / of_nat (length (filter profitability_achieved [first_sale_outputs]))))"
    by blast
  then have 2: "map_sum id avg_months_to_profitability
       (analyze_results exact_stats [first_sale_outputs]) = Inr None"
    by (simp add: first_sale_outputs_def)
  from n 1 2 show ?thesis by simp
qed

text \<open>
  C9 fails as stated: one trial on a configuration with a horizon of zero returns an
  empty trajectory, and on this batch of one \<open>analyze_results\<close> raises IndexError, so
  that there is no average months to profitability.
\<close>

theorem empty_batch_has_no_average:
  "map_sum id fst (run_monte_carlo (replay silent) zero_horizon default_params 1 no_draws)
     = Inr [SimulationOutputs_init]
   \<and> [SimulationOutputs_init] \<noteq> []
   \<and> analyze_results exact_stats [SimulationOutputs_init] = Inl IndexError"
  by (simp add: zero_horizon_def run_monte_carlo_def py_range_1 py_range_nonpos
      run_single_simulation_def rbind_def rreturn_def np_seed_def np_normal_def
      get_architecture_costs_def initial_state_def default_inputs_def default_params_def
      replay_def no_draws_def silent_def analyze_results_def count_rate_def
      avg_months_to_profit_def finals_def summarize_def SimulationOutputs_init_def)

text \<open>The outputs of a trial carry the profitability month whenever the flag is set.\<close>

lemma profitability_dated:
  assumes run: "run_single_simulation rng inp par seed g = Inr (out, g')"
  shows "dated_profit out"
proof -
  from run obtain edge_capex g1 st' where
    rm: "run_months rng inp par (map int [0..<nat (simulation_months inp)])
           (initial_state inp edge_capex) g1 = Inr (st', g')" and
    out: "out = st_outputs st'"
    by (rule run_single_simulation_Inr)
  let ?P = "\<lambda>s. dated_profit (st_outputs s)"
  have step: "?P s'" if "simulate_month rng inp par (int j) s h = Inr ((b, s'), h')" "?P s"
    for j s h b s' h'
  proof -
    from that(1) obtain st1 g1 fig where
      d: "deployment_phase rng inp par (int j) s h = Inr (st1, g1)" and
      o: "st_outputs s' = month_outputs inp (int j) fig st1"
      by (rule simulate_month_Inr)
    from that(2) show ?thesis
      by (simp add: dated_profit_def o deployment_phase_keeps(1)[OF d] month_outputs_flags)
  qed
  have "?P st'"
  proof (rule run_months_rule[OF rm, where I = "\<lambda>j. ?P" and Q = ?P])
    show "?P (initial_state inp edge_capex)"
      by (simp add: dated_profit_def initial_state_def SimulationOutputs_init_def)
  qed (use step in blast)+
  then show ?thesis by (simp add: out)
qed

text \<open>
  A trial with a positive horizon records at least one month, so that a batch holding
  its outputs has final values.
\<close>

lemma trial_records_a_month:
  assumes run: "run_single_simulation rng inp par seed g = Inr (out, g')"
    and horizon: "0 < simulation_months inp"
  shows "\<exists>k. 0 < k \<and> recorded_months out k"
proof -
  from run obtain edge_capex g1 st' where
    rm: "run_months rng inp par (map int [0..<nat (simulation_months inp)])
           (initial_state inp edge_capex) g1 = Inr (st', g')" and
    out: "out = st_outputs st'"
    by (rule run_single_simulation_Inr)
  let ?Q = "\<lambda>s. \<exists>k. 0 < k \<and> recorded_months (st_outputs s) k"
  have "?Q st'"
  proof (rule run_months_rule[OF rm, where I = running and Q = ?Q])
    show "running 0 (initial_state inp edge_capex)"
      by (simp add: running_def recorded_months_def initial_state_def SimulationOutputs_init_def)
  next
    fix j s s' h h'
    assume "running j s" "simulate_month rng inp par (int j) s h = Inr ((False, s'), h')"
    then show "running (Suc j) s'"
      using simulate_month_running[of rng inp par j s h False s' h'] by (simp add: running_def)
  next
    fix j s s' h h'
    assume "running j s" "simulate_month rng inp par (int j) s h = Inr ((True, s'), h')"
    then have "recorded_months (st_outputs s') (Suc j)"
      using simulate_month_running(1)[of rng inp par j s h True s' h'] by simp
    then show "?Q s'" by blast
  next
    fix j s
    assume "nat (simulation_months inp) \<le> j" "running j s"
    with horizon have "0 < j" "recorded_months (st_outputs s) j"
      by (simp_all add: running_def)
    then show "?Q s" by blast
  qed
  then show ?thesis by (simp add: out)
qed

lemma recorded_final_values:
  assumes "recorded_months out k" and "0 < k" and "out \<in> set results"
  shows "final_values_recorded results"
proof -
  from assms(1,2) have "cables_deployed out \<noteq> []" "total_customers out \<noteq> []" "arr out \<noteq> []"
    "cash_remaining out \<noteq> []" "team_size_total out \<noteq> []"
    by (auto simp: recorded_months_def)
  with assms(3) show ?thesis
    unfolding final_values_recorded_def finals_def by (auto simp: filter_empty_conv)
qed

text \<open>
  C1, as amended: a configuration with horizon \<open>-1\<close> and a negative price gives three
  empty trajectories; a negative capex variation is refused by numpy inside trial 0; a
  competitive pressure of 2 makes the revenue of month 1 fail in the power.
\<close>

theorem no_validation_witness:
  "DASMonteCarloSimulator invalid_inputs default_params = Inr (invalid_inputs, default_params)
   \<and> map_sum id fst (run_monte_carlo (replay silent) invalid_inputs default_params 3 no_draws)
       = Inr [SimulationOutputs_init, SimulationOutputs_init, SimulationOutputs_init]
   \<and> run_monte_carlo (replay silent) default_inputs negative_variation 1 no_draws
       = Inl ValueError
   \<and> run_single_simulation (replay silent) default_inputs negative_variation (Some 0) no_draws
       = Inl ValueError
   \<and> calculate_revenue default_inputs overpressure busy_ledger 1 = Inl ComplexResult
   \<and> py_float_pow (1 - competitive_pressure_annual overpressure) (of_int 1 / 12)
       = Inl ComplexResult"
proof -
  note t1 = no_validation[where inp = invalid_inputs and par = default_params
      and rng = "replay silent" and n = 3 and g = no_draws]
  have h: "simulation_months invalid_inputs \<le> 0 \<and> 0 \<le> edge_capex_variation default_params
      \<and> (3 :: int) \<le> 2 ^ 32"
    by (simp add: invalid_inputs_def default_inputs_def default_params_def)
  from t1 h have 1:
    "DASMonteCarloSimulator invalid_inputs default_params = Inr (invalid_inputs, default_params)"
    "map_sum id fst (run_monte_carlo (replay silent) invalid_inputs default_params 3 no_draws)
       = Inr [SimulationOutputs_init, SimulationOutputs_init, SimulationOutputs_init]"
    by (simp_all add: eval_nat_numeral)
  note t2 = no_validation[where inp = default_inputs and par = negative_variation
      and rng = "replay silent" and n = 1 and g = no_draws]
  have e2: "run_monte_carlo (replay silent) default_inputs negative_variation 1 no_draws
       = Inl ValueError"
    by (simp add: run_monte_carlo_def py_range_1 run_single_simulation_def rbind_def
        np_seed_def np_normal_def get_architecture_costs_def negative_variation_def
        default_inputs_def default_params_def replay_def)
  with t2 have "\<exists>i \<in> set (py_range 1).
      run_single_simulation (replay silent) default_inputs negative_variation (Some i) no_draws
        = Inl ValueError" by blast
  then have 2: "run_single_simulation (replay silent) default_inputs negative_variation (Some 0)
      no_draws = Inl ValueError" by (simp add: py_range_1)
  note t3 = no_validation[where inp = default_inputs and par = overpressure
      and customers = busy_ledger and month = 1 and rng = "replay silent" and n = 1
      and g = no_draws]
  have e3: "calculate_revenue default_inputs overpressure busy_ledger 1 = Inl ComplexResult"
    by (simp add: calculate_revenue_def py_float_pow_def overpressure_def default_params_def)
  with t3 have 3: "py_float_pow (1 - competitive_pressure_annual overpressure) (of_int 1 / 12)
       = Inl ComplexResult" by blast
  from 1 e2 2 e3 3 show ?thesis by simp
qed

text \<open>
  C1 fails as stated: the configuration with horizon \<open>-1\<close> and a negative port price is
  accepted by the constructor, and \<open>run_monte_carlo\<close> runs two trials on it and returns
  their two empty trajectories.
\<close>

theorem invalid_configuration_runs:
  "simulation_months invalid_inputs < 0 \<and> pricing_port invalid_inputs < 0
   \<and> DASMonteCarloSimulator invalid_inputs default_params = Inr (invalid_inputs, default_params)
   \<and> run_monte_carlo (replay silent) invalid_inputs default_params 2 no_draws
       = Inr ([SimulationOutputs_init, SimulationOutputs_init], no_draws)"
  by (simp add: invalid_inputs_def DASMonteCarloSimulator_def run_monte_carlo_def py_range_2
      py_range_nonpos run_single_simulation_def rbind_def rreturn_def np_seed_def np_normal_def
      get_architecture_costs_def initial_state_def default_inputs_def default_params_def
      replay_def no_draws_def silent_def)

text \<open>
  C2 on the code: planning in month 6 of a default trial, with two lead-time draws of
  \<open>-1.5\<close> months, puts two entries on the queue that are scheduled for month 5, before
  the month in which they are enqueued. The lead time is the one normal draw of the
  simulator that is used without a clamp.
\<close>

theorem negative_lead_time_enqueued:
  "map_sum id (st_deployment_queue \<circ> fst)
     (plan_deployments (replay silent) default_inputs default_params 6 month_6_state unlucky)
   = Inr [(5, 250000), (5, 250000)]"
  by (simp add: run_defs month_6_state_def unlucky_def eval_nat_numeral)

text \<open>
  C8 on a state with the flag set: after a month with no revenue the flag is still set.
\<close>

theorem series_b_persists_witness:
  "series_b_qualified (st_outputs qualified_state)
   \<and> map_sum id (series_b_and_arr \<circ> fst)
       (run_months (replay silent) default_inputs default_params [3] qualified_state no_draws)
     = Inr (True, [0])"
proof -
  have q: "series_b_qualified (st_outputs qualified_state)"
    by (simp add: qualified_state_def)
  have "\<exists>st' g'. run_months (replay silent) default_inputs default_params [3] qualified_state no_draws
          = Inr (st', g') \<and> arr (st_outputs st') = [0]"
    by (simp add: run_defs qualified_state_def month_6_state_def)
  then obtain st' g' where
    r: "run_months (replay silent) default_inputs default_params [3] qualified_state no_draws
          = Inr (st', g')" and a: "arr (st_outputs st') = [0]" by blast
  from series_b_persists[OF r q] a
  have "map_sum id (series_b_and_arr \<circ> fst) (Inr (st', g')) = Inr (True, [0])"
    by (simp add: series_b_and_arr_def)
  then have "map_sum id (series_b_and_arr \<circ> fst)
       (run_months (replay silent) default_inputs default_params [3] qualified_state no_draws)
     = Inr (True, [0])" by (simp only: r)
  with q show ?thesis by (rule conjI)
qed

text \<open>
  C5 fails as stated: with flat targets and a team growth rate of zero, the recorded
  team size is 5 up to month 5 and 0 in month 6.
\<close>

theorem zero_rate_team_vanishes:
  "team_growth_rate shrinking = 0 \<and> initial_team_size shrinking = 5
   \<and> target_cables_month_6 shrinking = initial_cables shrinking
   \<and> target_cables_month_12 shrinking = initial_cables shrinking
   \<and> target_cables_month_18 shrinking = initial_cables shrinking
   \<and> map_sum id (team_size_total \<circ> fst)
       (run_single_simulation (replay silent) shrinking default_params (Some 0) no_draws)
     = Inr [5, 5, 5, 5, 5, 5, 0]"
  by (simp add: run_defs shrinking_def py_range_7)

text \<open>C5, as amended, on seven months with flat targets and a team growth rate of one.\<close>

theorem zero_growth_witness:
  "team_growth_rate steady = 1
   \<and> map_sum id (cables_and_team \<circ> fst)
       (run_single_simulation (replay silent) steady default_params (Some 0) no_draws)
     = Inr (replicate 7 (initial_cables steady), replicate 7 (initial_team_size steady))"
proof -
  have "\<exists>out g'. run_single_simulation (replay silent) steady default_params (Some 0) no_draws
          = Inr (out, g') \<and> length (cables_deployed out) = 7 \<and> length (team_size_total out) = 7"
    by (simp add: run_defs steady_def py_range_7)
  then obtain out g' where
    r: "run_single_simulation (replay silent) steady default_params (Some 0) no_draws = Inr (out, g')"
    and l: "length (cables_deployed out) = 7" "length (team_size_total out) = 7" by blast
  have f: "target_cables_month_6 steady = initial_cables steady"
    "target_cables_month_12 steady = initial_cables steady"
    "target_cables_month_18 steady = initial_cables steady"
    and t: "team_growth_rate steady = 1"
    by (simp_all add: steady_def default_inputs_def)
  from zero_growth[OF r f] t have
    c: "\<forall>c \<in> set (cables_deployed out). c = initial_cables steady" and
    m: "\<forall>t \<in> set (team_size_total out). t = initial_team_size steady" by simp_all
  from c l(1) have "cables_deployed out = replicate 7 (initial_cables steady)"
    by (intro replicate_eqI) simp_all
  moreover from m l(2) have "team_size_total out = replicate 7 (initial_team_size steady)"
    by (intro replicate_eqI) simp_all
  ultimately show ?thesis using t by (simp add: r cables_and_team_def)
qed

end
